theory Spec2Isabelle
  imports Complex_Main "HOL-Library.Word" "HOL-Library.Multiset"
begin

chapter \<open>The model\<close>

section \<open>Noise-level monitor: data model\<close>

text \<open>
  The program is one C file, \<^verbatim>\<open>Projeto_Final_Edcarllos.c\<close>. Its globals and the
  \<^verbatim>\<open>static\<close> locals of its functions form the state of the device; every function
  of the model takes that state and returns the updated one. What the hardware supplies
  (ADC readings, the microsecond timer, the GPIO levels) is an argument of the function
  that reads it.

  Number types. \<^verbatim>\<open>uint8_t\<close>, \<^verbatim>\<open>uint16_t\<close>, \<^verbatim>\<open>uint32_t\<close> and \<^verbatim>\<open>unsigned int\<close> (32 bits on
  the RP2040) are words of that width. A C \<^verbatim>\<open>float\<close> is a real number here, and \<^verbatim>\<open>+\<close>, \<^verbatim>\<open>-\<close>,
  \<^verbatim>\<open>*\<close>, \<^verbatim>\<open>/\<close>, \<^verbatim>\<open>sqrtf\<close>, \<^verbatim>\<open>log10f\<close> are the exact real operations: binary32 rounding, infinities
  and NaN are not modelled. In the level estimator the float constants (\<^verbatim>\<open>3.3f\<close>, \<^verbatim>\<open>0.95f\<close>,
  \<^verbatim>\<open>0.05f\<close>, \<^verbatim>\<open>0.00002f\<close>, \<^verbatim>\<open>1e-12f\<close>) stand for their decimal values. Where only comparisons
  and exactly representable values are involved the model is exact: the threshold takes
  whole values only (\<open>limite_ok\<close>), and the joystick comparisons use the binary32 values
  of \<^verbatim>\<open>0.3f\<close> and \<^verbatim>\<open>0.7f\<close> (\<open>F03\<close>, \<open>F07\<close>). In the graph of the display, where a float is cut
  to a pixel row, the division and the multiplication are rounded to binary32
  (\<open>float32\<close>).
\<close>

type_synonym u8 = "8 word"
type_synonym u16 = "16 word"
type_synonym u32 = "32 word"

datatype Modo = MONITORAMENTO | ALERTA | ESTATISTICAS

text \<open>Calls made to the PWM block that drives the buzzer, in the order they are made.\<close>

datatype pwm_call =
    Pwm_set_wrap nat
  | Pwm_set_chan_level nat
  | Pwm_set_enabled bool

record sistema =
  limite_atual_db :: real
  modo_atual :: Modo
  historico :: "real list"
  indice_historico :: u8
  contador_alertas :: u32
  offset_dc :: real
  last_press :: u32
  estado_anterior :: bool
  pwm_log :: "pwm_call list"

definition LIMITE_DB :: real where
  "LIMITE_DB = 100"

definition CALIBRACAO :: real where
  "CALIBRACAO = 0.00002"

definition AMOSTRAS :: nat where
  "AMOSTRAS = 64"

definition TAMANHO_HISTORICO :: nat where
  "TAMANHO_HISTORICO = 128"

text \<open>
  The state at the first iteration of the main loop: the initialisers of the globals and
  of the static locals (a global array without initialiser is all zeros).
\<close>

definition inicial :: sistema where
  "inicial = \<lparr> limite_atual_db = LIMITE_DB, modo_atual = MONITORAMENTO,
      historico = replicate TAMANHO_HISTORICO 0, indice_historico = 0,
      contador_alertas = 0, offset_dc = 0, last_press = 0,
      estado_anterior = False, pwm_log = [] \<rparr>"

section \<open>Level estimator\<close>

text \<open>
  \<^verbatim>\<open>ler_decibeis\<close> reads \<^verbatim>\<open>AMOSTRAS\<close> samples with \<^verbatim>\<open>adc_read()\<close>, one per iteration of its
  loop; \<open>adc_read i\<close> is the reading the ADC returns in iteration \<open>i\<close> (a \<^verbatim>\<open>uint16_t\<close>).
  The loop state is the static \<^verbatim>\<open>offset_dc\<close> and the local \<^verbatim>\<open>soma_quadrados\<close>.
  \<^verbatim>\<open>sleep_us\<close> and \<^verbatim>\<open>adc_select_input\<close> change nothing the program reads back.
\<close>

definition tensao :: "u16 \<Rightarrow> real" where
  "tensao leitura_adc = (real (unat leitura_adc) * 3.3) / 4096"

definition amostra :: "u16 \<Rightarrow> real \<times> real \<Rightarrow> real \<times> real" where
  "amostra leitura_adc st =
     (let offset = fst st; soma_quadrados = snd st;
          t = tensao leitura_adc;
          offset' = 0.95 * offset + 0.05 * t;
          tensao_ac = (t - offset') * 10
      in (offset', soma_quadrados + tensao_ac * tensao_ac))"

definition amostrar :: "(nat \<Rightarrow> u16) \<Rightarrow> real \<Rightarrow> real \<times> real" where
  "amostrar adc_read offset =
     foldl (\<lambda>st i. amostra (adc_read i) st) (offset, 0) [0..<AMOSTRAS]"

text \<open>The two lines after the loop: \<^verbatim>\<open>sqrtf\<close>, \<^verbatim>\<open>log10f\<close> and \<^verbatim>\<open>fmaxf\<close>; \<open>1e-12\<close> is \<open>1 / 10 ^ 12\<close>.\<close>

definition para_db :: "real \<Rightarrow> real" where
  "para_db soma_quadrados =
     (let rms = sqrt (soma_quadrados / real AMOSTRAS)
      in max 30 (20 * log 10 (rms / CALIBRACAO + 1 / 10 ^ 12)))"

definition ler_decibeis :: "(nat \<Rightarrow> u16) \<Rightarrow> sistema \<Rightarrow> real \<times> sistema" where
  "ler_decibeis adc_read s =
     (let st = amostrar adc_read (offset_dc s)
      in (para_db (snd st), s\<lparr> offset_dc := fst st \<rparr>))"

text \<open>The batch of raw samples one call reads, as numbers, in the order read.\<close>

definition leituras_brutas :: "(nat \<Rightarrow> u16) \<Rightarrow> nat list" where
  "leituras_brutas adc_read = map (\<lambda>i. unat (adc_read i)) [0..<AMOSTRAS]"

section \<open>History buffer\<close>

text \<open>
  \<^verbatim>\<open>historico\<close> is a C array of \<^verbatim>\<open>TAMANHO_HISTORICO\<close> floats and \<^verbatim>\<open>indice_historico\<close> a
  \<^verbatim>\<open>uint8_t\<close>. A store at an index of 128 or more would be outside the array (undefined
  behaviour in C): the model returns \<open>None\<close> there. In \<^verbatim>\<open>(indice_historico + 1) % 128\<close>
  the operand is promoted to \<^verbatim>\<open>int\<close>, so the sum does not wrap.
\<close>

definition atualizar_historico :: "real \<Rightarrow> sistema \<Rightarrow> sistema option" where
  "atualizar_historico db s =
     (if unat (indice_historico s) < TAMANHO_HISTORICO
      then Some (s\<lparr> historico := (historico s)[unat (indice_historico s) := db],
                     indice_historico :=
                       of_nat ((unat (indice_historico s) + 1) mod TAMANHO_HISTORICO) \<rparr>)
      else None)"

fun historico_seq :: "real list \<Rightarrow> sistema \<Rightarrow> sistema option" where
  "historico_seq [] s = Some s"
| "historico_seq (x # xs) s =
     (case atualizar_historico x s of None \<Rightarrow> None | Some s' \<Rightarrow> historico_seq xs s')"

text \<open>
  The order in which \<^verbatim>\<open>atualizar_display\<close> (and \<^verbatim>\<open>desenhar_grafico\<close>) read the buffer:
  position \<^verbatim>\<open>(indice_historico + i) % TAMANHO_HISTORICO\<close> for \<open>i = 0, \<dots>, 127\<close>.
\<close>

definition leitura_cronologica :: "sistema \<Rightarrow> real list" where
  "leitura_cronologica s =
     map (\<lambda>i. historico s ! ((unat (indice_historico s) + i) mod TAMANHO_HISTORICO))
       [0..<TAMANHO_HISTORICO]"

text \<open>\<^verbatim>\<open>obter_valor_maximo(array, size)\<close>: starts from \<^verbatim>\<open>array[0]\<close> and scans \<open>1 \<dots> size - 1\<close>.\<close>

definition obter_valor_maximo :: "real list \<Rightarrow> nat \<Rightarrow> real" where
  "obter_valor_maximo array sz =
     foldl (\<lambda>mx i. if array ! i > mx then array ! i else mx) (array ! 0) [1..<sz]"

text \<open>The array has its declared length and the index is inside it.\<close>

definition historico_ok :: "sistema \<Rightarrow> bool" where
  "historico_ok s =
     (length (historico s) = TAMANHO_HISTORICO \<and> unat (indice_historico s) < TAMANHO_HISTORICO)"

section \<open>Threshold buttons\<close>

text \<open>
  \<^verbatim>\<open>verificar_botoes\<close> calls \<^verbatim>\<open>time_us_32()\<close> twice: \<open>t1\<close> is the value compared with the
  static \<^verbatim>\<open>last_press\<close>, \<open>t2\<close> the value stored at the end. The subtraction is on
  \<^verbatim>\<open>uint32_t\<close> and wraps. \<open>gpio_a\<close> and \<open>gpio_b\<close> are what \<^verbatim>\<open>gpio_get\<close> returns for the
  two pins: the buttons are active low, so a pressed button reads \<open>False\<close>.
  \<^verbatim>\<open>fminf\<close> and \<^verbatim>\<open>fmaxf\<close> are \<open>min\<close> and \<open>max\<close>.
\<close>

definition debounce_delay :: u32 where
  "debounce_delay = 200000"

definition verificar_botoes :: "u32 \<Rightarrow> u32 \<Rightarrow> bool \<Rightarrow> bool \<Rightarrow> sistema \<Rightarrow> sistema" where
  "verificar_botoes t1 t2 gpio_a gpio_b s =
     (if t1 - last_press s < debounce_delay then s
      else
        (let s1 = (if \<not> gpio_a
                   then s\<lparr> limite_atual_db := min 120 (limite_atual_db s + 1) \<rparr> else s);
             s2 = (if \<not> gpio_b
                   then s1\<lparr> limite_atual_db := max 30 (limite_atual_db s1 - 1) \<rparr> else s1)
         in s2\<lparr> last_press := t2 \<rparr>))"

text \<open>The call gets past the early \<^verbatim>\<open>return\<close>.\<close>

definition aceita :: "u32 \<Rightarrow> sistema \<Rightarrow> bool" where
  "aceita t1 s = (\<not> t1 - last_press s < debounce_delay)"

text \<open>
  The threshold is in range and a whole number. Whole numbers up to 120 and their
  successors and predecessors are exact in binary32, so on such a threshold the float
  operations of \<^verbatim>\<open>verificar_botoes\<close> are the real ones.
\<close>

definition limite_ok :: "sistema \<Rightarrow> bool" where
  "limite_ok s =
     (30 \<le> limite_atual_db s \<and> limite_atual_db s \<le> 120 \<and> limite_atual_db s \<in> \<int>)"

section \<open>Mode selector\<close>

text \<open>
  \<^verbatim>\<open>verificar_joystick\<close> divides the reading by \<^verbatim>\<open>4096.0f\<close> (exact in binary32) and
  compares it with the float constants \<^verbatim>\<open>0.3f\<close> and \<^verbatim>\<open>0.7f\<close>, which are not \<open>3/10\<close> and
  \<open>7/10\<close> but the binary32 numbers next to them, \<open>F03\<close> and \<open>F07\<close>. The second
  \<^verbatim>\<open>adc_read()\<close>, whose result is dropped, is left out.
\<close>

definition F03 :: real where
  "F03 = 5033165 / 16777216"

definition F07 :: real where
  "F07 = 11744051 / 16777216"

definition verificar_joystick :: "u16 \<Rightarrow> sistema \<Rightarrow> sistema" where
  "verificar_joystick leitura s =
     (let posicao_x = real (unat leitura) / 4096 in
      if posicao_x < F03 then s\<lparr> modo_atual := MONITORAMENTO \<rparr>
      else if posicao_x > F07 then s\<lparr> modo_atual := ESTATISTICAS \<rparr>
      else s)"

section \<open>Buzzer and alert counter\<close>

text \<open>
  \<^verbatim>\<open>acionar_buzzer(bool estado)\<close>: returns at once when \<^verbatim>\<open>estado\<close> equals the static
  \<^verbatim>\<open>estado_anterior\<close>; otherwise programs the PWM (wrap \<open>125000000 / 2500 / 16\<close>, level
  half of it, enable) and counts the alert, or disables the PWM, and stores \<^verbatim>\<open>estado\<close>.
  The slice and channel are those of \<^verbatim>\<open>BUZZER_PIN\<close> in every call and are not recorded.
\<close>

definition wrap_val :: nat where
  "wrap_val = 125000000 div 2500 div 16"

definition acionar_buzzer :: "bool \<Rightarrow> sistema \<Rightarrow> sistema" where
  "acionar_buzzer estado s =
     (if estado = estado_anterior s then s
      else
        (let s1 =
           (if estado then
              (let s' = s\<lparr> pwm_log := pwm_log s @
                         [Pwm_set_wrap wrap_val, Pwm_set_chan_level (wrap_val div 2),
                          Pwm_set_enabled True] \<rparr>
               in if \<not> estado_anterior s'
                  then s'\<lparr> contador_alertas := contador_alertas s' + 1 \<rparr>
                  else s')
            else s\<lparr> pwm_log := pwm_log s @ [Pwm_set_enabled False] \<rparr>)
         in s1\<lparr> estado_anterior := estado \<rparr>))"

text \<open>A run of cycles, as far as the buzzer is concerned: one call per cycle.\<close>

fun acionar_seq :: "bool list \<Rightarrow> sistema \<Rightarrow> sistema" where
  "acionar_seq [] s = s"
| "acionar_seq (e # es) s = acionar_seq es (acionar_buzzer e s)"

text \<open>Number of cycles whose condition is true while the previous one was false.\<close>

fun subidas :: "bool \<Rightarrow> bool list \<Rightarrow> nat" where
  "subidas prev [] = 0"
| "subidas prev (e # es) = (if e \<and> \<not> prev then 1 else 0) + subidas e es"

section \<open>Display\<close>

text \<open>
  The frame of one cycle is the list of drawing calls made on the cleared buffer, in
  order. A text is a literal or one of the three \<^verbatim>\<open>snprintf\<close> formats with the value it
  prints: \<^verbatim>\<open>"Alertas: %u"\<close>, \<^verbatim>\<open>"%.1f dB"\<close>, \<^verbatim>\<open>"Limite: %.1f dB"\<close>. \<open>Draw_line_h y\<close> is
  \<^verbatim>\<open>ssd1306_draw_line(buffer, 0, y, ssd1306_width - 1, y, true)\<close>.
\<close>

datatype texto =
    Literal string
  | Fmt_alertas u32
  | Fmt_db real
  | Fmt_limite real

datatype desenho =
    Draw_string nat nat texto
  | Set_pixel nat int
  | Draw_line_h nat

type_synonym quadro = "desenho list"

fun exibir_linhas :: "nat \<Rightarrow> texto list \<Rightarrow> quadro" where
  "exibir_linhas y_pos [] = []"
| "exibir_linhas y_pos (l # ls) = Draw_string 5 y_pos l # exibir_linhas (y_pos + 8) ls"

definition exibir_texto :: "texto list \<Rightarrow> quadro" where
  "exibir_texto lines = exibir_linhas 0 lines"

text \<open>The cast \<^verbatim>\<open>(int)\<close> of a float: the fraction is dropped, towards zero.\<close>

definition int_de_float :: "real \<Rightarrow> int" where
  "int_de_float x = (if 0 \<le> x then \<lfloor>x\<rfloor> else \<lceil>x\<rceil>)"

text \<open>
  Binary32 arithmetic. A float operation returns the exact result rounded to the nearest
  binary32 number, ties to the one with even significand. \<open>float32\<close> is that rounding:
  the exponent of \<open>x\<close> is \<open>\<lfloor>log 2 \<bar>x\<bar>\<rfloor>\<close>, not below \<open>-126\<close> (below it the numbers are subnormal
  and share the spacing \<open>2 powi (- 149)\<close>), the spacing of the binary32 numbers at \<open>x\<close> is
  \<open>2 powi (e - 23)\<close>, and \<open>x\<close> is rounded to a multiple of it. A result of magnitude \<open>2 ^ 128\<close>
  or more is an infinity in binary32 and is not modelled; none arises in the graph, where
  the quotient is below 1 and the products are levels scaled down.
\<close>

definition arredondar_par :: "real \<Rightarrow> int" where
  "arredondar_par x =
     (let f = \<lfloor>x\<rfloor>; r = x - of_int f in
      if r < 1 / 2 then f
      else if r > 1 / 2 then f + 1
      else if even f then f else f + 1)"

definition float32 :: "real \<Rightarrow> real" where
  "float32 x =
     (if x = 0 then 0
      else
        (let e = max \<lfloor>log 2 \<bar>x\<bar>\<rfloor> (- 126);
             ulp = 2 powi (e - 23)
         in of_int (arredondar_par (x / ulp)) * ulp))"

text \<open>
  \<^verbatim>\<open>escala\<close> is the float quotient \<^verbatim>\<open>40.0f / nivel_maximo_db\<close>, and the row of a point is
  \<^verbatim>\<open>40 - (int)(historico[...] * escala)\<close>: a float product, then the cast. The entries of
  \<^verbatim>\<open>historico\<close> are floats in the device; on binary32 operands \<open>float32\<close> of the exact
  quotient or product is what the float operation returns.
\<close>

definition escala_grafico :: "real \<Rightarrow> real" where
  "escala_grafico nivel_maximo_db =
     (if nivel_maximo_db > 40 then float32 (40 / nivel_maximo_db) else 1)"

definition ponto_y :: "sistema \<Rightarrow> real \<Rightarrow> nat \<Rightarrow> int" where
  "ponto_y s escala i =
     40 - int_de_float
            (float32
               (historico s ! ((unat (indice_historico s) + i) mod TAMANHO_HISTORICO)
                * escala))"

definition texto_modo :: "Modo \<Rightarrow> string" where
  "texto_modo m =
     (if m = MONITORAMENTO then ''Monitoramento''
      else if m = ALERTA then ''Modo Alerta''
      else ''Estatisticas'')"

definition atualizar_display :: "real \<Rightarrow> sistema \<Rightarrow> quadro" where
  "atualizar_display db s =
     [Draw_string 5 0 (Fmt_db db),
      Draw_string 5 45 (Literal (texto_modo (modo_atual s))),
      Draw_string 5 55 (Fmt_limite (limite_atual_db s))]
     @ (if modo_atual s = MONITORAMENTO then
          (let nivel_maximo_db = obter_valor_maximo (historico s) TAMANHO_HISTORICO;
               escala = escala_grafico nivel_maximo_db
           in map (\<lambda>i. Set_pixel i (ponto_y s escala i)) [0..<TAMANHO_HISTORICO]
              @ [Draw_line_h 15, Draw_line_h 43])
        else [])"

text \<open>The \<^verbatim>\<open>if\<close> of \<^verbatim>\<open>main\<close> that chooses what is drawn (lines 127 to 143).\<close>

definition compor_tela :: "real \<Rightarrow> bool \<Rightarrow> sistema \<Rightarrow> quadro" where
  "compor_tela db alerta_cond s =
     (if modo_atual s = ESTATISTICAS then
        exibir_texto [Literal ''Modo Estatisticas'', Fmt_alertas (contador_alertas s)]
      else if alerta_cond then
        exibir_texto [Literal ''  ALERTA!  '', Literal ''Nivel maximo'', Literal '' excedido!  '']
      else atualizar_display db s)"

section \<open>Main loop\<close>

text \<open>
  What the hardware supplies during one iteration of the \<^verbatim>\<open>while (true)\<close> of \<^verbatim>\<open>main\<close>, and
  what the iteration produces besides the new state.
\<close>

record entrada =
  microfone :: "nat \<Rightarrow> u16"
  t_teste :: u32
  t_marca :: u32
  gpio_a :: bool
  gpio_b :: bool
  joystick :: u16

record saida =
  nivel_db :: real
  alerta_cond :: bool
  tela :: quadro

definition ciclo :: "entrada \<Rightarrow> sistema \<Rightarrow> (saida \<times> sistema) option" where
  "ciclo e s =
     (let (db, s1) = ler_decibeis (microfone e) s in
      case atualizar_historico db s1 of
        None \<Rightarrow> None
      | Some s2 \<Rightarrow>
          (let s3 = verificar_botoes (t_teste e) (t_marca e) (gpio_a e) (gpio_b e) s2;
               s4 = verificar_joystick (joystick e) s3;
               cond = (db > limite_atual_db s4 \<and> modo_atual s4 \<noteq> ESTATISTICAS);
               s5 = acionar_buzzer cond s4
           in Some (\<lparr> nivel_db = db, alerta_cond = cond, tela = compor_tela db cond s5 \<rparr>, s5)))"

fun executar :: "entrada list \<Rightarrow> sistema \<Rightarrow> sistema option" where
  "executar [] s = Some s"
| "executar (e # es) s =
     (case ciclo e s of None \<Rightarrow> None | Some (out, s') \<Rightarrow> executar es s')"

definition invariante :: "sistema \<Rightarrow> bool" where
  "invariante s = (limite_ok s \<and> historico_ok s \<and> modo_atual s \<noteq> ALERTA)"

section \<open>The level estimator as the specification words it\<close>

text \<open>
  The specification describes the estimator by its formulas, sample by sample:
  voltage \<open>raw * 3.3 / full_scale\<close>; offset after the sample \<open>0.95 * offset + 0.05 * voltage\<close>;
  AC component \<open>(voltage - offset') * 10\<close>; RMS the root of the sum of the squared AC
  components over 64; level \<open>max 30 (20 * log10 (rms / 0.00002 + 1e-12))\<close>. The full scale
  \<open>fs\<close> is a parameter: the specification says 4095.
\<close>

definition spec_voltage :: "real \<Rightarrow> nat \<Rightarrow> real" where
  "spec_voltage fs raw = real raw * 3.3 / fs"

fun spec_offsets :: "real \<Rightarrow> real \<Rightarrow> nat list \<Rightarrow> real list" where
  "spec_offsets fs off [] = []"
| "spec_offsets fs off (raw # raws) =
     (0.95 * off + 0.05 * spec_voltage fs raw)
       # spec_offsets fs (0.95 * off + 0.05 * spec_voltage fs raw) raws"

definition spec_ac :: "real \<Rightarrow> real \<Rightarrow> nat list \<Rightarrow> real list" where
  "spec_ac fs off raws =
     map (\<lambda>(raw, off'). (spec_voltage fs raw - off') * 10) (zip raws (spec_offsets fs off raws))"

definition spec_rms :: "real \<Rightarrow> real \<Rightarrow> nat list \<Rightarrow> real" where
  "spec_rms fs off raws = sqrt ((\<Sum>a\<leftarrow>spec_ac fs off raws. a * a) / 64)"

definition spec_level :: "real \<Rightarrow> real \<Rightarrow> nat list \<Rightarrow> real" where
  "spec_level fs off raws = max 30 (20 * log 10 (spec_rms fs off raws / 0.00002 + 1 / 10 ^ 12))"

section \<open>Concrete inputs\<close>

text \<open>A batch that is silent but for a full-scale last sample, and a silent batch.\<close>

definition adc_pulso :: "nat \<Rightarrow> u16" where
  "adc_pulso i = (if i = 63 then 4095 else 0)"

definition adc_silencio :: "nat \<Rightarrow> u16" where
  "adc_silencio i = 0"

text \<open>
  Cycle inputs: nothing pressed, joystick centred, loud batch; the same with the joystick
  pushed to the statistics side; and button A pressed half a second after start.
\<close>

definition entrada_ruido :: entrada where
  "entrada_ruido = \<lparr> microfone = adc_pulso, t_teste = 500000, t_marca = 500001,
      gpio_a = True, gpio_b = True, joystick = 2048 \<rparr>"

definition entrada_estatisticas :: entrada where
  "entrada_estatisticas = \<lparr> microfone = adc_pulso, t_teste = 500000, t_marca = 500001,
      gpio_a = True, gpio_b = True, joystick = 4095 \<rparr>"

definition entrada_botao_a :: entrada where
  "entrada_botao_a = \<lparr> microfone = adc_silencio, t_teste = 500000, t_marca = 500001,
      gpio_a = False, gpio_b = True, joystick = 2048 \<rparr>"

text \<open>
  The state after the level 30.5 has been stored once in the initial buffer, and the
  state after the level 66.5 has.
\<close>

definition sistema_um_nivel :: sistema where
  "sistema_um_nivel = inicial\<lparr> historico := 30.5 # replicate 127 0, indice_historico := 1 \<rparr>"

definition sistema_nivel_alto :: sistema where
  "sistema_nivel_alto = inicial\<lparr> historico := 66.5 # replicate 127 0, indice_historico := 1 \<rparr>"

chapter \<open>Properties\<close>

section \<open>Buzzer\<close>

lemma acionar_buzzer_contador:
  "contador_alertas (acionar_buzzer e s) =
     (if e \<and> \<not> estado_anterior s then contador_alertas s + 1 else contador_alertas s)"
  by (simp add: acionar_buzzer_def Let_def)

lemma acionar_buzzer_anterior: "estado_anterior (acionar_buzzer e s) = e"
  by (simp add: acionar_buzzer_def Let_def)

lemma acionar_buzzer_igual: "e = estado_anterior s \<Longrightarrow> acionar_buzzer e s = s"
  by (simp add: acionar_buzzer_def)

lemma acionar_seq_contador:
  "contador_alertas (acionar_seq es s) =
     contador_alertas s + of_nat (subidas (estado_anterior s) es)"
proof (induction es arbitrary: s)
  case Nil
  show ?case by simp
next
  case (Cons e es)
  show ?case
    by (simp add: Cons.IH acionar_buzzer_contador acionar_buzzer_anterior)
qed

section \<open>Buttons\<close>

lemma limite_ok_inicial: "limite_ok inicial"
  by (simp add: limite_ok_def inicial_def LIMITE_DB_def)

lemma verificar_botoes_limite_ok: "limite_ok s \<Longrightarrow> limite_ok (verificar_botoes t1 t2 a b s)"
  by (auto simp: limite_ok_def verificar_botoes_def Let_def min_def max_def)

lemma verificar_botoes_gated: "\<not> aceita t1 s \<Longrightarrow> verificar_botoes t1 t2 a b s = s"
  by (simp add: aceita_def verificar_botoes_def)

lemma verificar_botoes_limite:
  "aceita t1 s \<Longrightarrow> limite_atual_db (verificar_botoes t1 t2 a b s) =
     (if \<not> a \<and> b then min 120 (limite_atual_db s + 1)
      else if a \<and> \<not> b then max 30 (limite_atual_db s - 1)
      else if \<not> a \<and> \<not> b then max 30 (min 120 (limite_atual_db s + 1) - 1)
      else limite_atual_db s)"
  by (simp add: aceita_def verificar_botoes_def Let_def)

lemma verificar_botoes_last_press:
  "aceita t1 s \<Longrightarrow> last_press (verificar_botoes t1 t2 a b s) = t2"
  by (simp add: aceita_def verificar_botoes_def Let_def)

lemma verificar_botoes_um_passo:
  "30 \<le> limite_atual_db s \<Longrightarrow> limite_atual_db s \<le> 120 \<Longrightarrow>
     \<bar>limite_atual_db (verificar_botoes t1 t2 a b s) - limite_atual_db s\<bar> \<le> 1"
  by (auto simp: verificar_botoes_def Let_def)

lemma dentro_da_janela: "d < 200000 \<Longrightarrow> last_press s = t \<Longrightarrow> \<not> aceita (t + of_nat d) s"
  by (simp add: aceita_def debounce_delay_def word_less_nat_alt unat_of_nat)

section \<open>Joystick\<close>

text \<open>
  On every reading the comparisons with the binary32 constants decide as the comparisons
  with \<open>0.3\<close> and \<open>0.7\<close> do: no multiple of \<open>1/4096\<close> lies between a constant and its
  decimal.
\<close>

lemma abaixo_F03: "real n / 4096 < F03 \<longleftrightarrow> real n / 4096 < 0.3"
proof -
  have "real n / 4096 < F03 \<longleftrightarrow> real (n * 4096) < real 5033165"
    by (simp add: F03_def field_simps)
  also have "\<dots> \<longleftrightarrow> n * 4096 < 5033165"
    by (rule of_nat_less_iff)
  also have "\<dots> \<longleftrightarrow> n * 10 < 12288"
    by arith
  also have "\<dots> \<longleftrightarrow> real (n * 10) < real 12288"
    by (rule of_nat_less_iff [symmetric])
  also have "\<dots> \<longleftrightarrow> real n / 4096 < 0.3"
    by (simp add: field_simps)
  finally show ?thesis .
qed

lemma acima_F07: "real n / 4096 > F07 \<longleftrightarrow> real n / 4096 > 0.7"
proof -
  have "real n / 4096 > F07 \<longleftrightarrow> real 11744051 < real (n * 4096)"
    by (simp add: F07_def field_simps)
  also have "\<dots> \<longleftrightarrow> 11744051 < n * 4096"
    by (rule of_nat_less_iff)
  also have "\<dots> \<longleftrightarrow> 28672 < n * 10"
    by arith
  also have "\<dots> \<longleftrightarrow> real 28672 < real (n * 10)"
    by (rule of_nat_less_iff [symmetric])
  also have "\<dots> \<longleftrightarrow> real n / 4096 > 0.7"
    by (simp add: field_simps)
  finally show ?thesis .
qed

lemma verificar_joystick_modo:
  "modo_atual (verificar_joystick r s) =
     (if real (unat r) / 4096 < 0.3 then MONITORAMENTO
      else if real (unat r) / 4096 > 0.7 then ESTATISTICAS
      else modo_atual s)"
  unfolding verificar_joystick_def Let_def abaixo_F03 acima_F07 by simp

lemma verificar_joystick_nao_alerta:
  "modo_atual s \<noteq> ALERTA \<Longrightarrow> modo_atual (verificar_joystick r s) \<noteq> ALERTA"
  by (simp add: verificar_joystick_modo)

section \<open>History buffer\<close>

lemma historico_ok_inicial: "historico_ok inicial"
  by (simp add: historico_ok_def inicial_def TAMANHO_HISTORICO_def)

lemma unat_indice: "unat (of_nat (n mod TAMANHO_HISTORICO) :: u8) = n mod TAMANHO_HISTORICO"
proof -
  have "n mod 128 < 256"
    by (rule less_trans [of _ 128]) simp_all
  then show ?thesis
    by (simp add: TAMANHO_HISTORICO_def unat_of_nat)
qed

lemma anel_mod: "m < 256 \<Longrightarrow> (m::nat) mod 128 = (if m < 128 then m else m - 128)"
  by (simp add: mod_if)

lemma anel_ne: "n < 128 \<Longrightarrow> i < 127 \<Longrightarrow> (n + (i + 1)) mod 128 \<noteq> (n::nat)"
  by (auto simp: anel_mod)

lemma anel_pos: "((n + 1) mod 128 + i) mod 128 = (n + (i + 1)) mod (128::nat)"
proof -
  have "((n + 1) mod 128 + i) mod 128 = ((n + 1) + i) mod 128"
    by (rule mod_add_left_eq)
  also have "(n + 1) + i = n + (i + 1)"
    by simp
  finally show ?thesis .
qed

lemma atualizar_historico_ok:
  assumes "historico_ok s"
  shows "\<exists>s'. atualizar_historico db s = Some s' \<and> historico_ok s'
           \<and> leitura_cronologica s' = tl (leitura_cronologica s) @ [db]"
proof -
  let ?n = "unat (indice_historico s)"
  let ?h = "historico s"
  let ?s' = "s\<lparr> historico := ?h[?n := db],
                 indice_historico := of_nat ((?n + 1) mod TAMANHO_HISTORICO) \<rparr>"
  from assms have len: "length ?h = 128" and n: "?n < 128"
    by (simp_all add: historico_ok_def TAMANHO_HISTORICO_def)
  have upd: "atualizar_historico db s = Some ?s'"
    using n by (simp add: atualizar_historico_def TAMANHO_HISTORICO_def)
  have idx: "unat (indice_historico ?s') = (?n + 1) mod 128"
    using unat_indice [of "?n + 1"] by (simp add: TAMANHO_HISTORICO_def)
  have ok: "historico_ok ?s'"
    using len idx by (simp add: historico_ok_def TAMANHO_HISTORICO_def)
  have "leitura_cronologica ?s' = tl (leitura_cronologica s) @ [db]"
  proof (rule nth_equalityI)
    show "length (leitura_cronologica ?s') = length (tl (leitura_cronologica s) @ [db])"
      by (simp add: leitura_cronologica_def TAMANHO_HISTORICO_def)
  next
    fix i assume "i < length (leitura_cronologica ?s')"
    then have i: "i < 128"
      by (simp add: leitura_cronologica_def TAMANHO_HISTORICO_def)
    have pos: "((?n + 1) mod 128 + i) mod 128 = (?n + (i + 1)) mod 128"
      by (rule anel_pos)
    have lhs: "leitura_cronologica ?s' ! i = (?h[?n := db]) ! ((?n + (i + 1)) mod 128)"
      using i idx pos by (simp add: leitura_cronologica_def TAMANHO_HISTORICO_def)
    show "leitura_cronologica ?s' ! i = (tl (leitura_cronologica s) @ [db]) ! i"
    proof (cases "i = 127")
      case True
      then have "(?n + (i + 1)) mod 128 = ?n"
        using n by simp
      then show ?thesis
        using lhs True len n
        by (simp add: nth_append leitura_cronologica_def TAMANHO_HISTORICO_def)
    next
      case False
      with i have i': "i < 127" by simp
      have ne: "(?n + (i + 1)) mod 128 \<noteq> ?n"
        using n i' by (rule anel_ne)
      have "(tl (leitura_cronologica s) @ [db]) ! i = leitura_cronologica s ! (i + 1)"
        using i' by (simp add: nth_append nth_tl leitura_cronologica_def TAMANHO_HISTORICO_def)
      also have "\<dots> = ?h ! ((?n + (i + 1)) mod 128)"
        using i' by (simp add: leitura_cronologica_def TAMANHO_HISTORICO_def)
      finally show ?thesis
        using lhs ne by simp
    qed
  qed
  with upd ok show ?thesis by blast
qed

lemma historico_seq_ok:
  "historico_ok s \<Longrightarrow>
     \<exists>s'. historico_seq xs s = Some s' \<and> historico_ok s'
       \<and> leitura_cronologica s' = drop (length xs) (leitura_cronologica s @ xs)"
proof (induction xs arbitrary: s)
  case Nil
  then show ?case by simp
next
  case (Cons x xs)
  from atualizar_historico_ok [OF Cons.prems, of x] obtain s1 where
    s1: "atualizar_historico x s = Some s1" "historico_ok s1"
      "leitura_cronologica s1 = tl (leitura_cronologica s) @ [x]"
    by blast
  from Cons.IH [OF s1(2)] obtain s' where
    s': "historico_seq xs s1 = Some s'" "historico_ok s'"
      "leitura_cronologica s' = drop (length xs) (leitura_cronologica s1 @ xs)"
    by blast
  have ne: "leitura_cronologica s \<noteq> []"
    by (simp add: leitura_cronologica_def TAMANHO_HISTORICO_def)
  have "drop (length xs) (leitura_cronologica s1 @ xs)
      = drop (length xs) (tl (leitura_cronologica s @ x # xs))"
    using ne s1(3) by simp
  also have "\<dots> = drop (length (x # xs)) (leitura_cronologica s @ x # xs)"
    by (simp only: length_Cons drop_Suc)
  finally show ?case
    using s1(1) s' by simp
qed

lemma leitura_rotate:
  assumes "historico_ok s"
  shows "leitura_cronologica s = rotate (unat (indice_historico s)) (historico s)"
proof (rule nth_equalityI)
  show "length (leitura_cronologica s) = length (rotate (unat (indice_historico s)) (historico s))"
    using assms by (simp add: leitura_cronologica_def historico_ok_def)
next
  fix i assume "i < length (leitura_cronologica s)"
  then have i: "i < TAMANHO_HISTORICO"
    by (simp add: leitura_cronologica_def)
  from assms have len: "length (historico s) = TAMANHO_HISTORICO"
    by (simp add: historico_ok_def)
  show "leitura_cronologica s ! i = rotate (unat (indice_historico s)) (historico s) ! i"
    using i len by (simp add: leitura_cronologica_def nth_rotate)
qed

lemma mset_rotacao: "mset (rotate n xs) = mset xs"
proof -
  let ?k = "n mod length xs"
  have "mset (rotate n xs) = mset (drop ?k xs) + mset (take ?k xs)"
    by (simp add: rotate_drop_take)
  also have "\<dots> = mset (take ?k xs @ drop ?k xs)"
    by (simp only: mset_append add.commute)
  finally show ?thesis
    by simp
qed

lemma leitura_mset: "historico_ok s \<Longrightarrow> mset (leitura_cronologica s) = mset (historico s)"
  by (simp add: leitura_rotate mset_rotacao)

lemma se_maior: "(if x > mx then x else mx) = max x (mx::real)"
  by (simp add: max_def)

lemma foldl_max:
  "foldl (\<lambda>mx i. if array ! i > mx then array ! i else mx) (m::real) [a..<b]
     = Max (insert m (set (map ((!) array) [a..<b])))"
proof (induction b)
  case 0
  show ?case by simp
next
  case (Suc b)
  show ?case
  proof (cases "a \<le> b")
    case True
    let ?S = "insert m (set (map ((!) array) [a..<b]))"
    have "foldl (\<lambda>mx i. if array ! i > mx then array ! i else mx) m [a..<Suc b]
        = (if array ! b > Max ?S then array ! b else Max ?S)"
      using True by (simp only: upt_Suc_append foldl_append foldl.simps Suc.IH)
    also have "\<dots> = max (array ! b) (Max ?S)"
      by (rule se_maior)
    also have "\<dots> = Max (insert (array ! b) ?S)"
      by (rule Max_insert [symmetric]) simp_all
    also have "insert (array ! b) ?S = insert m (set (map ((!) array) [a..<Suc b]))"
      using True by auto
    finally show ?thesis .
  next
    case False
    then show ?thesis by simp
  qed
qed

lemma obter_valor_maximo_Max:
  assumes "length array = sz" and "0 < sz"
  shows "obter_valor_maximo array sz = Max (set array)"
proof -
  have "insert (array ! 0) (set (map ((!) array) [1..<sz])) = set (map ((!) array) [0..<sz])"
    using assms(2) by (simp add: upt_rec [of 0])
  also have "\<dots> = set (map ((!) array) [0..<length array])"
    by (simp only: assms(1))
  also have "\<dots> = set array"
    by (simp only: map_nth)
  finally show ?thesis
    by (simp add: obter_valor_maximo_def foldl_max)
qed

section \<open>Level estimator\<close>

lemma amostra_spec:
  "foldl (\<lambda>st r. amostra r st) (off, acc) rs =
     (last (off # spec_offsets 4096 off (map unat rs)),
      acc + (\<Sum>a\<leftarrow>spec_ac 4096 off (map unat rs). a * a))"
proof (induction rs arbitrary: off acc)
  case Nil
  show ?case by (simp add: spec_ac_def)
next
  case (Cons r rs)
  have st: "amostra r (off, acc) =
      (0.95 * off + 0.05 * spec_voltage 4096 (unat r),
       acc + ((spec_voltage 4096 (unat r) - (0.95 * off + 0.05 * spec_voltage 4096 (unat r))) * 10)
           * ((spec_voltage 4096 (unat r) - (0.95 * off + 0.05 * spec_voltage 4096 (unat r))) * 10))"
    by (simp add: amostra_def tensao_def spec_voltage_def Let_def)
  show ?case
    by (simp add: st Cons.IH spec_ac_def add.assoc)
qed

lemma amostrar_spec:
  "amostrar adc_read off =
     (last (off # spec_offsets 4096 off (map (\<lambda>i. unat (adc_read i)) [0..<AMOSTRAS])),
      (\<Sum>a\<leftarrow>spec_ac 4096 off (map (\<lambda>i. unat (adc_read i)) [0..<AMOSTRAS]). a * a))"
proof -
  have "amostrar adc_read off = foldl (\<lambda>st r. amostra r st) (off, 0) (map adc_read [0..<AMOSTRAS])"
    by (simp add: amostrar_def foldl_map)
  then show ?thesis
    by (simp add: amostra_spec o_def)
qed

lemma ler_decibeis_spec:
  "fst (ler_decibeis adc_read s) =
     spec_level 4096 (offset_dc s) (map (\<lambda>i. unat (adc_read i)) [0..<AMOSTRAS])"
  by (simp add: ler_decibeis_def Let_def para_db_def amostrar_spec spec_level_def spec_rms_def
      CALIBRACAO_def AMOSTRAS_def)

lemma ler_decibeis_piso: "30 \<le> fst (ler_decibeis adc_read s)"
  by (simp add: ler_decibeis_def Let_def para_db_def)

lemma amostra_repouso: "tensao r = off \<Longrightarrow> amostra r (off, acc) = (off, acc)"
  by (simp add: amostra_def Let_def)

lemma amostrar_repouso:
  "(\<And>i. i < n \<Longrightarrow> tensao (adc_read i) = off) \<Longrightarrow>
     foldl (\<lambda>st i. amostra (adc_read i) st) (off, acc) [0..<n] = (off, acc)"
  by (induction n) (simp_all add: amostra_repouso)

lemma log_epsilon: "log 10 (1 / 10 ^ 12) = - 12"
proof -
  have "log 10 (10 ^ 12) = real 12"
    by (rule log_pow_cancel) simp_all
  then show ?thesis
    by (simp only: log_recip)
qed

lemma para_db_zero: "para_db 0 = 30"
  using log_epsilon by (simp add: para_db_def Let_def)

lemma amostra_soma_nonneg: "0 \<le> snd st \<Longrightarrow> 0 \<le> snd (amostra r st)"
  by (simp add: amostra_def Let_def)

lemma foldl_amostra_nonneg:
  "0 \<le> snd st \<Longrightarrow> 0 \<le> snd (foldl (\<lambda>st i. amostra (adc_read i) st) st is)"
  by (induction "is" arbitrary: st) (simp_all add: amostra_soma_nonneg)

lemma amostrar_nonneg: "0 \<le> snd (amostrar adc_read off)"
  unfolding amostrar_def by (rule foldl_amostra_nonneg) simp

text \<open>
  In every call the logarithm is taken of a positive number, where \<^verbatim>\<open>log10f\<close> and \<open>log\<close>
  agree on what they mean.
\<close>

lemma argumento_log_positivo:
  "0 < sqrt (snd (amostrar adc_read off) / real AMOSTRAS) / CALIBRACAO + 1 / 10 ^ 12"
proof -
  have "0 \<le> sqrt (snd (amostrar adc_read off) / real AMOSTRAS) / CALIBRACAO"
    using amostrar_nonneg [of adc_read off] by (simp add: CALIBRACAO_def)
  then show ?thesis
    by (simp add: add_nonneg_pos)
qed

text \<open>The two sides on the batch \<open>adc_pulso\<close>, from offset 0.\<close>

lemma amostrar_zeros:
  "(\<And>i. i < n \<Longrightarrow> adc_read i = 0) \<Longrightarrow>
     foldl (\<lambda>st i. amostra (adc_read i) st) (0, 0) [0..<n] = (0, 0)"
  by (induction n) (simp_all add: amostra_def tensao_def Let_def)

lemma upt_64: "[0..<64] = [0..<63] @ [63]"
  using upt_Suc_append [of 0 63] by simp

lemma soma_codigo: "amostrar adc_pulso 0 = (0.05 * (4095 * 3.3 / 4096), (9.5 * (4095 * 3.3 / 4096))\<^sup>2)"
proof -
  have "foldl (\<lambda>st i. amostra (adc_pulso i) st) (0, 0) [0..<63] = (0, 0)"
    by (rule amostrar_zeros) (simp add: adc_pulso_def)
  then have "amostrar adc_pulso 0 = amostra 4095 (0, 0)"
    by (simp add: amostrar_def AMOSTRAS_def upt_64 adc_pulso_def)
  also have "\<dots> = (0.05 * (4095 * 3.3 / 4096), (9.5 * (4095 * 3.3 / 4096))\<^sup>2)"
    by (simp add: amostra_def tensao_def Let_def power2_eq_square)
  finally show ?thesis .
qed

lemma spec_ac_Cons:
  "spec_ac fs off (raw # raws) =
     (spec_voltage fs raw - (0.95 * off + 0.05 * spec_voltage fs raw)) * 10
       # spec_ac fs (0.95 * off + 0.05 * spec_voltage fs raw) raws"
  by (simp add: spec_ac_def)

lemma spec_soma_zeros:
  "(\<Sum>a\<leftarrow>spec_ac fs 0 (replicate n 0 @ raws). a * a) = (\<Sum>a\<leftarrow>spec_ac fs 0 raws. a * a)"
  by (induction n) (simp_all add: spec_ac_Cons spec_voltage_def)

lemma pulso_raws: "map (\<lambda>i. unat (adc_pulso i)) [0..<64] = replicate 63 0 @ [4095]"
proof -
  have "map (\<lambda>i. unat (adc_pulso i)) [0..<63] = map (\<lambda>i. 0) [0..<63]"
    by (rule map_cong) (simp_all add: adc_pulso_def)
  then show ?thesis
    by (simp add: upt_64 map_replicate_const adc_pulso_def)
qed

lemma soma_spec: "(\<Sum>a\<leftarrow>spec_ac 4095 0 (map (\<lambda>i. unat (adc_pulso i)) [0..<64]). a * a) = (9.5 * 3.3)\<^sup>2"
  unfolding pulso_raws spec_soma_zeros
  by (simp add: spec_ac_Cons spec_ac_def spec_voltage_def power2_eq_square)

lemma raiz: "0 \<le> q \<Longrightarrow> sqrt (q\<^sup>2 / 64) = q / 8"
proof -
  assume q: "0 \<le> q"
  have "q\<^sup>2 / 64 = (q / 8)\<^sup>2"
    by (simp add: power2_eq_square)
  then show ?thesis
    using q by (simp only: real_sqrt_abs) 
qed

lemma raiz': "0 \<le> q \<Longrightarrow> sqrt (q\<^sup>2 / real 64) = q / 8"
  using raiz by simp

lemma log_alto: "100 \<le> x \<Longrightarrow> max 30 (20 * log 10 x) = 20 * log 10 x"
proof -
  assume x: "100 \<le> x"
  have "log 10 (10 ^ 2) = 2"
    by (simp only: log_pow_cancel) 
  moreover have "log 10 (10 ^ 2) \<le> log 10 x"
    using x by (subst log_le_cancel_iff) simp_all
  ultimately show ?thesis by simp
qed

lemma nivel_codigo:
  "fst (ler_decibeis adc_pulso inicial) = 20 * log 10 (9.5 * (4095 * 3.3 / 4096) / 8 / 0.00002 + 1 / 10 ^ 12)"
proof -
  have "fst (ler_decibeis adc_pulso inicial) = para_db ((9.5 * (4095 * 3.3 / 4096))\<^sup>2)"
    by (simp add: ler_decibeis_def Let_def inicial_def soma_codigo)
  also have "\<dots> = max 30 (20 * log 10 (9.5 * (4095 * 3.3 / 4096) / 8 / 0.00002 + 1 / 10 ^ 12))"
    unfolding para_db_def Let_def AMOSTRAS_def CALIBRACAO_def
    by (subst raiz') simp_all
  also have "\<dots> = 20 * log 10 (9.5 * (4095 * 3.3 / 4096) / 8 / 0.00002 + 1 / 10 ^ 12)"
    by (rule log_alto) simp
  finally show ?thesis .
qed

lemma nivel_spec:
  "spec_level 4095 0 (map (\<lambda>i. unat (adc_pulso i)) [0..<64]) = 20 * log 10 (9.5 * 3.3 / 8 / 0.00002 + 1 / 10 ^ 12)"
proof -
  have "spec_level 4095 0 (map (\<lambda>i. unat (adc_pulso i)) [0..<64])
      = max 30 (20 * log 10 (9.5 * 3.3 / 8 / 0.00002 + 1 / 10 ^ 12))"
    unfolding spec_level_def spec_rms_def soma_spec
    by (subst raiz) simp_all
  also have "\<dots> = 20 * log 10 (9.5 * 3.3 / 8 / 0.00002 + 1 / 10 ^ 12)"
    by (rule log_alto) simp
  finally show ?thesis .
qed

section \<open>Binary32 rounding\<close>

text \<open>
  Between two powers of two the binary32 numbers are the multiples of \<open>2 powi (e - 23)\<close>;
  \<open>float32\<close> leaves them as they are, moves any other number by at most half that spacing,
  and resolves a tie to the even significand.
\<close>

lemma float32_normal:
  assumes "2 powi e \<le> \<bar>x\<bar>" and "\<bar>x\<bar> < 2 powi (e + 1)" and "- 126 \<le> e"
  shows "float32 x = of_int (arredondar_par (x / 2 powi (e - 23))) * 2 powi (e - 23)"
proof -
  have pos: "0 < \<bar>x\<bar>"
  proof -
    have "(0::real) < 2 powi e"
      by (rule zero_less_power_int) simp
    then show ?thesis
      using assms(1) by (rule less_le_trans)
  qed
  have "(2::real) powr real_of_int e \<le> \<bar>x\<bar> \<and> \<bar>x\<bar> < 2 powr (real_of_int e + 1)"
    using assms(1,2) powr_real_of_int' [of "2::real" e] powr_real_of_int' [of "2::real" "e + 1"]
    by simp
  then have "\<lfloor>log 2 \<bar>x\<bar>\<rfloor> = e"
    using pos by (simp add: floor_log_eq_powr_iff)
  then show ?thesis
    using pos assms(3) by (simp add: float32_def Let_def)
qed

lemma arredondar_par_erro: "\<bar>of_int (arredondar_par y) - y\<bar> \<le> 1 / 2"
proof -
  have "of_int \<lfloor>y\<rfloor> \<le> y" "y < of_int \<lfloor>y\<rfloor> + 1"
    by linarith+
  then show ?thesis
    by (auto simp: arredondar_par_def Let_def)
qed

lemma arredondar_par_inteiro: "arredondar_par (of_int m) = m"
  by (simp add: arredondar_par_def Let_def)

lemma float32_representavel:
  assumes "2 ^ 23 \<le> \<bar>m\<bar>" and "\<bar>m\<bar> < 2 ^ 24" and "- 126 \<le> e"
  shows "float32 (of_int m * 2 powi (e - 23)) = of_int m * 2 powi (e - 23)"
proof -
  let ?u = "(2::real) powi (e - 23)"
  have u: "0 < ?u"
    by (rule zero_less_power_int) simp
  have e0: "(2::real) powi e = 2 ^ 23 * ?u"
    using power_int_add [of "2::real" 23 "e - 23"] by simp
  have e1: "(2::real) powi (e + 1) = 2 ^ 24 * ?u"
    using power_int_add [of "2::real" 24 "e - 23"] by (simp add: add.commute)
  have ab: "\<bar>of_int m * ?u\<bar> = of_int \<bar>m\<bar> * ?u"
    using u by (simp add: abs_mult)
  have "real_of_int (2 ^ 23) \<le> of_int \<bar>m\<bar>" "real_of_int \<bar>m\<bar> < of_int (2 ^ 24)"
    using assms(1,2) by (simp_all only: of_int_le_iff of_int_less_iff)
  then have "(2::real) ^ 23 \<le> of_int \<bar>m\<bar>" "of_int \<bar>m\<bar> < (2::real) ^ 24"
    by simp_all
  then have lo: "2 powi e \<le> \<bar>of_int m * ?u\<bar>" and hi: "\<bar>of_int m * ?u\<bar> < 2 powi (e + 1)"
    using u unfolding ab e0 e1 by simp_all
  have "float32 (of_int m * ?u) = of_int (arredondar_par (of_int m * ?u / ?u)) * ?u"
    using lo hi assms(3) by (rule float32_normal)
  also have "of_int m * ?u / ?u = of_int m"
    using u by simp
  finally show ?thesis
    by (simp only: arredondar_par_inteiro)
qed

lemma float32_erro:
  assumes "2 powi e \<le> \<bar>x\<bar>" and "\<bar>x\<bar> < 2 powi (e + 1)" and "- 126 \<le> e"
  shows "\<bar>float32 x - x\<bar> \<le> 2 powi (e - 24)"
proof -
  let ?u = "(2::real) powi (e - 23)"
  have u: "0 < ?u"
    by (rule zero_less_power_int) simp
  have h: "(2::real) powi (e - 24) = ?u / 2"
    using power_int_add [of "2::real" "e - 24" 1] by simp
  have "float32 x - x = (of_int (arredondar_par (x / ?u)) - x / ?u) * ?u"
    using u by (simp add: float32_normal [OF assms] field_simps)
  then have "\<bar>float32 x - x\<bar> = \<bar>of_int (arredondar_par (x / ?u)) - x / ?u\<bar> * ?u"
    using u by (simp add: abs_mult)
  also have "\<dots> \<le> 1 / 2 * ?u"
    using u arredondar_par_erro [of "x / ?u"] by (intro mult_right_mono) simp_all
  finally show ?thesis
    by (simp add: h)
qed

lemma empate_par: "float32 (1 + 1 / 2 ^ 24) = 1" "float32 (1 + 3 / 2 ^ 24) = 1 + 1 / 2 ^ 22"
  by (subst float32_normal [of 0]; simp add: arredondar_par_def Let_def power_int_minus)+

text \<open>The constants of the mode selector are the roundings of 0.3 and 0.7.\<close>

lemma float32_constantes: "float32 0.3 = F03" "float32 0.7 = F07"
  by (subst float32_normal [of "- 2"],
      simp_all add: arredondar_par_def Let_def power_int_minus F03_def)
    (subst float32_normal [of "- 1"],
      simp_all add: arredondar_par_def Let_def power_int_minus F07_def)

text \<open>The roundings met in the graphs below.\<close>

lemma float32_meio: "float32 (1 / 2) = 1 / 2"
  by (subst float32_normal [of "- 1"]) (simp_all add: arredondar_par_def Let_def power_int_minus)

lemma float32_30_5: "float32 30.5 = 30.5"
  by (subst float32_normal [of 4]) (simp_all add: arredondar_par_def Let_def power_int_minus)

lemma float32_escala_66_5: "float32 (40 / 66.5) = 5045779 / 8388608"
  by (subst float32_normal [of "- 1"]) (simp_all add: arredondar_par_def Let_def power_int_minus)

lemma float32_produto_66_5: "float32 (66.5 * (5045779 / 8388608)) = 10485759 / 262144"
  by (subst float32_normal [of 5]) (simp_all add: arredondar_par_def Let_def power_int_minus)

section \<open>One cycle and runs of cycles\<close>

lemma invariante_inicial: "invariante inicial"
  by (simp add: invariante_def limite_ok_inicial historico_ok_inicial) (simp add: inicial_def)

lemma ler_decibeis_campos:
  "limite_atual_db (snd (ler_decibeis adc_read s)) = limite_atual_db s"
  "modo_atual (snd (ler_decibeis adc_read s)) = modo_atual s"
  "historico (snd (ler_decibeis adc_read s)) = historico s"
  "indice_historico (snd (ler_decibeis adc_read s)) = indice_historico s"
  "contador_alertas (snd (ler_decibeis adc_read s)) = contador_alertas s"
  "estado_anterior (snd (ler_decibeis adc_read s)) = estado_anterior s"
  "last_press (snd (ler_decibeis adc_read s)) = last_press s"
  by (simp_all add: ler_decibeis_def Let_def)

lemma atualizar_historico_campos:
  assumes "atualizar_historico db s = Some s'"
  shows "limite_atual_db s' = limite_atual_db s" "modo_atual s' = modo_atual s"
    "contador_alertas s' = contador_alertas s" "estado_anterior s' = estado_anterior s"
    "last_press s' = last_press s"
  using assms by (auto simp: atualizar_historico_def split: if_splits)

lemma verificar_botoes_campos:
  "modo_atual (verificar_botoes t1 t2 a b s) = modo_atual s"
  "historico (verificar_botoes t1 t2 a b s) = historico s"
  "indice_historico (verificar_botoes t1 t2 a b s) = indice_historico s"
  "contador_alertas (verificar_botoes t1 t2 a b s) = contador_alertas s"
  "estado_anterior (verificar_botoes t1 t2 a b s) = estado_anterior s"
  by (simp_all add: verificar_botoes_def Let_def)

lemma verificar_joystick_campos:
  "limite_atual_db (verificar_joystick r s) = limite_atual_db s"
  "historico (verificar_joystick r s) = historico s"
  "indice_historico (verificar_joystick r s) = indice_historico s"
  "contador_alertas (verificar_joystick r s) = contador_alertas s"
  "estado_anterior (verificar_joystick r s) = estado_anterior s"
  "last_press (verificar_joystick r s) = last_press s"
  by (simp_all add: verificar_joystick_def Let_def)

lemma acionar_buzzer_campos:
  "limite_atual_db (acionar_buzzer c s) = limite_atual_db s"
  "modo_atual (acionar_buzzer c s) = modo_atual s"
  "historico (acionar_buzzer c s) = historico s"
  "indice_historico (acionar_buzzer c s) = indice_historico s"
  "last_press (acionar_buzzer c s) = last_press s"
  by (simp_all add: acionar_buzzer_def Let_def)

text \<open>The state after one cycle, written as the composition of the five calls.\<close>

lemma ciclo_Some:
  assumes "historico_ok s"
  shows "\<exists>s2. atualizar_historico (fst (ler_decibeis (microfone e) s))
                 (snd (ler_decibeis (microfone e) s)) = Some s2
           \<and> historico_ok s2
           \<and> ciclo e s =
               (let db = fst (ler_decibeis (microfone e) s);
                    s3 = verificar_botoes (t_teste e) (t_marca e) (gpio_a e) (gpio_b e) s2;
                    s4 = verificar_joystick (joystick e) s3;
                    cond = (db > limite_atual_db s4 \<and> modo_atual s4 \<noteq> ESTATISTICAS);
                    s5 = acionar_buzzer cond s4
                in Some (\<lparr> nivel_db = db, alerta_cond = cond, tela = compor_tela db cond s5 \<rparr>, s5))"
proof -
  let ?db = "fst (ler_decibeis (microfone e) s)"
  let ?s1 = "snd (ler_decibeis (microfone e) s)"
  have "historico_ok ?s1"
    using assms by (simp add: historico_ok_def ler_decibeis_campos)
  from atualizar_historico_ok [OF this, of ?db] obtain s2 where
    s2: "atualizar_historico ?db ?s1 = Some s2" "historico_ok s2"
    by blast
  have "ciclo e s =
      (let db = ?db;
           s3 = verificar_botoes (t_teste e) (t_marca e) (gpio_a e) (gpio_b e) s2;
           s4 = verificar_joystick (joystick e) s3;
           cond = (db > limite_atual_db s4 \<and> modo_atual s4 \<noteq> ESTATISTICAS);
           s5 = acionar_buzzer cond s4
       in Some (\<lparr> nivel_db = db, alerta_cond = cond, tela = compor_tela db cond s5 \<rparr>, s5))"
    using s2(1) by (simp add: ciclo_def Let_def split_beta)
  with s2 show ?thesis by blast
qed

lemma ciclo_invariante:
  assumes "invariante s"
  shows "\<exists>out s'. ciclo e s = Some (out, s') \<and> invariante s'"
proof -
  from assms have ok: "historico_ok s" and lim: "limite_ok s" and m: "modo_atual s \<noteq> ALERTA"
    by (simp_all add: invariante_def)
  let ?db = "fst (ler_decibeis (microfone e) s)"
  let ?s1 = "snd (ler_decibeis (microfone e) s)"
  from ciclo_Some [OF ok, of e] obtain s2 where
    s2: "atualizar_historico ?db ?s1 = Some s2" "historico_ok s2"
    and c: "ciclo e s =
      (let db = ?db;
           s3 = verificar_botoes (t_teste e) (t_marca e) (gpio_a e) (gpio_b e) s2;
           s4 = verificar_joystick (joystick e) s3;
           cond = (db > limite_atual_db s4 \<and> modo_atual s4 \<noteq> ESTATISTICAS);
           s5 = acionar_buzzer cond s4
       in Some (\<lparr> nivel_db = db, alerta_cond = cond, tela = compor_tela db cond s5 \<rparr>, s5))"
    by blast
  let ?s3 = "verificar_botoes (t_teste e) (t_marca e) (gpio_a e) (gpio_b e) s2"
  let ?s4 = "verificar_joystick (joystick e) ?s3"
  let ?cond = "?db > limite_atual_db ?s4 \<and> modo_atual ?s4 \<noteq> ESTATISTICAS"
  let ?s5 = "acionar_buzzer ?cond ?s4"
  have "limite_ok s2"
    using lim atualizar_historico_campos(1) [OF s2(1)]
    by (simp add: limite_ok_def ler_decibeis_campos)
  then have "limite_ok ?s3"
    by (rule verificar_botoes_limite_ok)
  then have l5: "limite_ok ?s5"
    by (simp add: limite_ok_def acionar_buzzer_campos verificar_joystick_campos)
  have h5: "historico_ok ?s5"
    using s2(2)
    by (simp add: historico_ok_def acionar_buzzer_campos verificar_joystick_campos
        verificar_botoes_campos)
  have "modo_atual s2 \<noteq> ALERTA"
    using m atualizar_historico_campos(2) [OF s2(1)] by (simp add: ler_decibeis_campos)
  then have "modo_atual ?s3 \<noteq> ALERTA"
    by (simp add: verificar_botoes_campos)
  then have "modo_atual ?s4 \<noteq> ALERTA"
    by (rule verificar_joystick_nao_alerta)
  then have m5: "modo_atual ?s5 \<noteq> ALERTA"
    by (simp add: acionar_buzzer_campos)
  from c have "ciclo e s = Some (\<lparr> nivel_db = ?db, alerta_cond = ?cond,
      tela = compor_tela ?db ?cond ?s5 \<rparr>, ?s5)"
    by (simp add: Let_def)
  with l5 h5 m5 show ?thesis
    unfolding invariante_def by blast
qed

lemma executar_invariante:
  "invariante s \<Longrightarrow> \<exists>s'. executar es s = Some s' \<and> invariante s'"
proof (induction es arbitrary: s)
  case Nil
  then show ?case by simp
next
  case (Cons e es)
  from ciclo_invariante [OF Cons.prems, of e] obtain out s1 where
    s1: "ciclo e s = Some (out, s1)" "invariante s1"
    by blast
  from Cons.IH [OF s1(2)] s1(1) show ?case
    by simp
qed

lemma verificar_botoes_limite_dep:
  "limite_atual_db s2 = limite_atual_db s \<Longrightarrow> last_press s2 = last_press s \<Longrightarrow>
     limite_atual_db (verificar_botoes t1 t2 a b s2) = limite_atual_db (verificar_botoes t1 t2 a b s)"
  by (simp add: verificar_botoes_def Let_def)

lemma verificar_joystick_modo_dep:
  "modo_atual s2 = modo_atual s \<Longrightarrow>
     modo_atual (verificar_joystick r s2) = modo_atual (verificar_joystick r s)"
  by (simp add: verificar_joystick_def Let_def)

lemma ciclo_efeito:
  assumes "historico_ok s"
  shows "\<exists>out s'. ciclo e s = Some (out, s')
     \<and> nivel_db out = fst (ler_decibeis (microfone e) s)
     \<and> limite_atual_db s' =
         limite_atual_db (verificar_botoes (t_teste e) (t_marca e) (gpio_a e) (gpio_b e) s)
     \<and> modo_atual s' = modo_atual (verificar_joystick (joystick e) s)
     \<and> alerta_cond out = (nivel_db out > limite_atual_db s' \<and> modo_atual s' \<noteq> ESTATISTICAS)
     \<and> estado_anterior s' = alerta_cond out
     \<and> contador_alertas s' =
         (if alerta_cond out \<and> \<not> estado_anterior s then contador_alertas s + 1
          else contador_alertas s)
     \<and> tela out = compor_tela (nivel_db out) (alerta_cond out) s'"
proof -
  let ?db = "fst (ler_decibeis (microfone e) s)"
  let ?s1 = "snd (ler_decibeis (microfone e) s)"
  from ciclo_Some [OF assms, of e] obtain s2 where
    s2: "atualizar_historico ?db ?s1 = Some s2"
    and c: "ciclo e s =
      (let db = ?db;
           s3 = verificar_botoes (t_teste e) (t_marca e) (gpio_a e) (gpio_b e) s2;
           s4 = verificar_joystick (joystick e) s3;
           cond = (db > limite_atual_db s4 \<and> modo_atual s4 \<noteq> ESTATISTICAS);
           s5 = acionar_buzzer cond s4
       in Some (\<lparr> nivel_db = db, alerta_cond = cond, tela = compor_tela db cond s5 \<rparr>, s5))"
    by blast
  let ?s3 = "verificar_botoes (t_teste e) (t_marca e) (gpio_a e) (gpio_b e) s2"
  let ?s4 = "verificar_joystick (joystick e) ?s3"
  let ?cond = "?db > limite_atual_db ?s4 \<and> modo_atual ?s4 \<noteq> ESTATISTICAS"
  let ?s5 = "acionar_buzzer ?cond ?s4"
  let ?out = "\<lparr> nivel_db = ?db, alerta_cond = ?cond, tela = compor_tela ?db ?cond ?s5 \<rparr>"
  have eq: "ciclo e s = Some (?out, ?s5)"
    using c by (simp add: Let_def)
  have f2: "limite_atual_db s2 = limite_atual_db s" "last_press s2 = last_press s"
    "modo_atual s2 = modo_atual s" "estado_anterior s2 = estado_anterior s"
    "contador_alertas s2 = contador_alertas s"
    using atualizar_historico_campos [OF s2] by (simp_all add: ler_decibeis_campos)
  have lim: "limite_atual_db ?s5 =
      limite_atual_db (verificar_botoes (t_teste e) (t_marca e) (gpio_a e) (gpio_b e) s)"
    using verificar_botoes_limite_dep [OF f2(1) f2(2)]
    by (simp add: acionar_buzzer_campos verificar_joystick_campos)
  have "modo_atual ?s3 = modo_atual s"
    using f2(3) by (simp add: verificar_botoes_campos)
  then have md: "modo_atual ?s5 = modo_atual (verificar_joystick (joystick e) s)"
    using verificar_joystick_modo_dep [of ?s3 s] by (simp add: acionar_buzzer_campos)
  have cnd: "?cond = (?db > limite_atual_db ?s5 \<and> modo_atual ?s5 \<noteq> ESTATISTICAS)"
    by (simp add: acionar_buzzer_campos)
  have ant: "estado_anterior ?s5 = ?cond"
    by (rule acionar_buzzer_anterior)
  have "estado_anterior ?s4 = estado_anterior s" "contador_alertas ?s4 = contador_alertas s"
    using f2(4,5) by (simp_all add: verificar_joystick_campos verificar_botoes_campos)
  then have cnt: "contador_alertas ?s5 =
      (if ?cond \<and> \<not> estado_anterior s then contador_alertas s + 1 else contador_alertas s)"
    using acionar_buzzer_contador [of ?cond ?s4] by simp
  show ?thesis
    apply (rule exI [of _ ?out])
    apply (rule exI [of _ ?s5])
    using eq lim md cnd ant cnt apply simp
    done
qed

chapter \<open>The claims\<close>

text \<open>
  Claim C1. The alert counter is edge-triggered. One call of \<open>acionar_buzzer\<close> adds exactly 1
  to \<open>contador_alertas\<close> (an \<^verbatim>\<open>unsigned int\<close>, so modulo \<open>2^32\<close>) when the condition is true
  and the stored previous condition is false, and leaves the counter alone in every other
  case, so on true-to-true and true-to-false cycles; it stores the condition as the new
  previous one; and when the condition equals the previous one the whole state is returned
  as it was: no PWM call is made and the counter is untouched. Hence over any sequence of
  cycles the counter grows by the number of false-to-true transitions of the sequence.
  Nothing else in a cycle of the main loop touches the counter or the stored condition.
\<close>

theorem C1_contador_por_transicao:
  "contador_alertas (acionar_buzzer e s) =
     (if e \<and> \<not> estado_anterior s then contador_alertas s + 1 else contador_alertas s)
   \<and> estado_anterior (acionar_buzzer e s) = e
   \<and> (e = estado_anterior s \<longrightarrow>
        acionar_buzzer e s = s \<and> pwm_log (acionar_buzzer e s) = pwm_log s)
   \<and> contador_alertas (acionar_seq es s) =
        contador_alertas s + of_nat (subidas (estado_anterior s) es)
   \<and> (historico_ok s \<longrightarrow>
        (\<exists>out s'. ciclo en s = Some (out, s')
           \<and> estado_anterior s' = alerta_cond out
           \<and> contador_alertas s' =
               (if alerta_cond out \<and> \<not> estado_anterior s then contador_alertas s + 1
                else contador_alertas s)))"
proof -
  have "\<exists>out s'. ciclo en s = Some (out, s')
           \<and> estado_anterior s' = alerta_cond out
           \<and> contador_alertas s' =
               (if alerta_cond out \<and> \<not> estado_anterior s then contador_alertas s + 1
                else contador_alertas s)"
    if "historico_ok s"
    using ciclo_efeito [OF that, of en] by blast
  then show ?thesis
    by (simp add: acionar_buzzer_contador acionar_buzzer_anterior acionar_buzzer_igual
        acionar_seq_contador)
qed

theorem C1_contador_por_transicao_witness:
  "contador_alertas (acionar_seq [True, True, False, True] inicial) = 2
   \<and> acionar_buzzer True (acionar_buzzer True inicial) = acionar_buzzer True inicial
   \<and> contador_alertas (acionar_buzzer True inicial) = 1
   \<and> contador_alertas (acionar_buzzer False (acionar_buzzer True inicial)) = 1
   \<and> historico_ok inicial
   \<and> (\<exists>out s'. ciclo entrada_ruido inicial = Some (out, s')
         \<and> estado_anterior s' = alerta_cond out
         \<and> contador_alertas s' = (if alerta_cond out then 1 else 0))"
proof -
  have ini: "estado_anterior inicial = False" "contador_alertas inicial = 0"
    by (simp_all add: inicial_def)
  note first = C1_contador_por_transicao [of True inicial "[True, True, False, True]" entrada_ruido]
  have c1: "contador_alertas (acionar_buzzer True inicial) = 1"
    using first ini by simp
  have e1: "estado_anterior (acionar_buzzer True inicial) = True"
    using first by simp
  have run: "contador_alertas (acionar_seq [True, True, False, True] inicial) = 2"
    using first ini by simp
  have cyc: "\<exists>out s'. ciclo entrada_ruido inicial = Some (out, s')
         \<and> estado_anterior s' = alerta_cond out
         \<and> contador_alertas s' = (if alerta_cond out then 1 else 0)"
  proof -
    from first historico_ok_inicial obtain out s' where
      "ciclo entrada_ruido inicial = Some (out, s')" "estado_anterior s' = alerta_cond out"
      "contador_alertas s' =
         (if alerta_cond out \<and> \<not> estado_anterior inicial then contador_alertas inicial + 1
          else contador_alertas inicial)"
      by blast
    with ini show ?thesis
      by simp
  qed
  have same: "acionar_buzzer True (acionar_buzzer True inicial) = acionar_buzzer True inicial"
    using C1_contador_por_transicao [of True "acionar_buzzer True inicial" "[]" entrada_ruido] e1
    by simp
  have c2: "contador_alertas (acionar_buzzer False (acionar_buzzer True inicial)) = 1"
    using C1_contador_por_transicao [of False "acionar_buzzer True inicial" "[]" entrada_ruido]
      c1 e1
    by simp
  show ?thesis
    using c1 run cyc same c2 historico_ok_inicial by blast
qed

text \<open>
  Claim C2. In every cycle the alert condition handed to the buzzer is
  \<open>(level > threshold) \<and> (mode \<noteq> Statistics)\<close>, where the level is the one just measured,
  the threshold the one left by this cycle's button handling and the mode the one left by
  this cycle's joystick handling. So with the level above the threshold the condition is
  false in mode Statistics and true in any other mode.
\<close>

theorem C2_condicao_de_alerta:
  assumes "historico_ok s"
  shows "\<exists>out s'. ciclo e s = Some (out, s')
     \<and> nivel_db out = fst (ler_decibeis (microfone e) s)
     \<and> limite_atual_db s' =
         limite_atual_db (verificar_botoes (t_teste e) (t_marca e) (gpio_a e) (gpio_b e) s)
     \<and> modo_atual s' = modo_atual (verificar_joystick (joystick e) s)
     \<and> alerta_cond out = (nivel_db out > limite_atual_db s' \<and> modo_atual s' \<noteq> ESTATISTICAS)
     \<and> (nivel_db out > limite_atual_db s' \<and> modo_atual s' = ESTATISTICAS
          \<longrightarrow> \<not> alerta_cond out)
     \<and> (nivel_db out > limite_atual_db s' \<and> modo_atual s' \<noteq> ESTATISTICAS
          \<longrightarrow> alerta_cond out)
     \<and> estado_anterior s' = alerta_cond out"
proof -
  from ciclo_efeito [OF assms, of e] obtain out s' where
    c: "ciclo e s = Some (out, s')"
      "nivel_db out = fst (ler_decibeis (microfone e) s)"
      "limite_atual_db s' =
         limite_atual_db (verificar_botoes (t_teste e) (t_marca e) (gpio_a e) (gpio_b e) s)"
      "modo_atual s' = modo_atual (verificar_joystick (joystick e) s)"
      "alerta_cond out = (nivel_db out > limite_atual_db s' \<and> modo_atual s' \<noteq> ESTATISTICAS)"
      "estado_anterior s' = alerta_cond out"
    by blast
  from c(5) have
    "nivel_db out > limite_atual_db s' \<and> modo_atual s' = ESTATISTICAS \<longrightarrow> \<not> alerta_cond out"
    "nivel_db out > limite_atual_db s' \<and> modo_atual s' \<noteq> ESTATISTICAS \<longrightarrow> alerta_cond out"
    by simp_all
  with c show ?thesis by blast
qed

lemma nivel_pulso_acima_de_100: "100 < fst (ler_decibeis adc_pulso inicial)"
proof -
  have "log 10 (10 ^ 5) = real 5"
    by (rule log_pow_cancel) simp_all
  moreover have "log 10 (10 ^ 5) < log 10 (9.5 * (4095 * 3.3 / 4096) / 8 / 0.00002 + 1 / 10 ^ 12)"
    by (subst log_less_cancel_iff) simp_all
  ultimately show ?thesis
    by (simp only: nivel_codigo)
qed

theorem C2_condicao_de_alerta_witness:
  "historico_ok inicial
   \<and> (\<exists>out s'. ciclo entrada_ruido inicial = Some (out, s')
         \<and> 100 < nivel_db out \<and> limite_atual_db s' = 100 \<and> modo_atual s' = MONITORAMENTO
         \<and> alerta_cond out)
   \<and> (\<exists>out s'. ciclo entrada_estatisticas inicial = Some (out, s')
         \<and> 100 < nivel_db out \<and> limite_atual_db s' = 100 \<and> modo_atual s' = ESTATISTICAS
         \<and> \<not> alerta_cond out)"
proof -
  have lim: "limite_atual_db (verificar_botoes 500000 500001 True True inicial) = 100"
    by (simp add: verificar_botoes_def Let_def inicial_def LIMITE_DB_def)
  have m1: "modo_atual (verificar_joystick 2048 inicial) = MONITORAMENTO"
    by (simp add: verificar_joystick_modo) (simp add: inicial_def)
  have m2: "modo_atual (verificar_joystick 4095 inicial) = ESTATISTICAS"
    by (simp add: verificar_joystick_modo)
  from C2_condicao_de_alerta [OF historico_ok_inicial, of entrada_ruido]
  have "\<exists>out s'. ciclo entrada_ruido inicial = Some (out, s')
         \<and> 100 < nivel_db out \<and> limite_atual_db s' = 100 \<and> modo_atual s' = MONITORAMENTO
         \<and> alerta_cond out"
    using nivel_pulso_acima_de_100 lim m1 by (auto simp: entrada_ruido_def)
  moreover from C2_condicao_de_alerta [OF historico_ok_inicial, of entrada_estatisticas]
  have "\<exists>out s'. ciclo entrada_estatisticas inicial = Some (out, s')
         \<and> 100 < nivel_db out \<and> limite_atual_db s' = 100 \<and> modo_atual s' = ESTATISTICAS
         \<and> \<not> alerta_cond out"
    using nivel_pulso_acima_de_100 lim m2 by (auto simp: entrada_estatisticas_def)
  ultimately show ?thesis
    using historico_ok_inicial by blast
qed

text \<open>
  Claim C3, as the code has it. With float arithmetic read as real arithmetic, for every
  batch of 64 raw samples and every starting offset the estimator returns the level the
  formulas of the claim give when the voltage is \<open>raw * 3.3 / 4096\<close> (the claim says 4095):
  offset \<open>0.95 * offset + 0.05 * voltage\<close>, AC component \<open>(voltage - offset') * 10\<close>, RMS the
  root of the sum of squares over 64, level \<open>max 30 (20 * log10 (rms / 0.00002 + 1e-12))\<close>;
  and the offset it keeps for the next call is the last one of the batch.
\<close>

theorem C3_estimador_escala_4096:
  "fst (ler_decibeis adc_read s) = spec_level 4096 (offset_dc s) (leituras_brutas adc_read)
   \<and> offset_dc (snd (ler_decibeis adc_read s)) =
       last (offset_dc s # spec_offsets 4096 (offset_dc s) (leituras_brutas adc_read))
   \<and> length (leituras_brutas adc_read) = 64
   \<and> tensao r = spec_voltage 4096 (unat r)"
  by (simp add: leituras_brutas_def ler_decibeis_spec)
    (simp add: ler_decibeis_def Let_def amostrar_spec AMOSTRAS_def tensao_def spec_voltage_def)

text \<open>
  With the full scale 4095 of the claim the formulas miss the code: a full-scale reading is
  not 3.3 V in the code, and on the batch \<open>adc_pulso\<close> the level of the code is below the
  level of the formulas.
\<close>

theorem C3_escala_4095_counterexample:
  "tensao 4095 \<noteq> spec_voltage 4095 4095
   \<and> fst (ler_decibeis adc_pulso inicial)
       \<noteq> spec_level 4095 (offset_dc inicial) (leituras_brutas adc_pulso)"
proof -
  have "log 10 (9.5 * (4095 * 3.3 / 4096) / 8 / 0.00002 + 1 / 10 ^ 12)
      < log 10 (9.5 * 3.3 / 8 / 0.00002 + 1 / 10 ^ 12)"
    by (subst log_less_cancel_iff) simp_all
  moreover have "offset_dc inicial = 0"
    by (simp add: inicial_def)
  ultimately have "fst (ler_decibeis adc_pulso inicial)
      < spec_level 4095 (offset_dc inicial) (leituras_brutas adc_pulso)"
    by (simp only: nivel_codigo nivel_spec leituras_brutas_def AMOSTRAS_def)
  moreover have "tensao 4095 \<noteq> spec_voltage 4095 4095"
    by (simp add: tensao_def spec_voltage_def)
  ultimately show ?thesis
    by simp
qed

text \<open>
  Claim C4. For every batch and every starting offset the level returned by
  \<open>ler_decibeis\<close> is at least 30. When every sample's voltage equals the tracked offset, the
  sum of squares (and so the RMS) is zero and the level is exactly 30: the logarithm is
  taken of \<open>1e-12\<close>, which is \<open>-12\<close>, not of zero.
\<close>

theorem C4_piso_de_30:
  "30 \<le> fst (ler_decibeis adc_read s)
   \<and> ((\<forall>i<AMOSTRAS. tensao (adc_read i) = offset_dc s) \<longrightarrow>
        snd (amostrar adc_read (offset_dc s)) = 0 \<and> fst (ler_decibeis adc_read s) = 30)
   \<and> log 10 (1 / 10 ^ 12) = - 12"
proof -
  have "fst (ler_decibeis adc_read s) = 30 \<and> snd (amostrar adc_read (offset_dc s)) = 0"
    if h: "\<forall>i<AMOSTRAS. tensao (adc_read i) = offset_dc s"
  proof -
    have "amostrar adc_read (offset_dc s) = (offset_dc s, 0)"
      unfolding amostrar_def using h by (intro amostrar_repouso) simp
    then show ?thesis
      by (simp add: ler_decibeis_def Let_def para_db_zero)
  qed
  then show ?thesis
    using log_epsilon by (simp add: ler_decibeis_piso)
qed

theorem C4_piso_de_30_witness:
  "tensao (adc_silencio 0) = offset_dc inicial
   \<and> fst (ler_decibeis adc_silencio inicial) = 30
   \<and> 30 \<le> fst (ler_decibeis adc_pulso inicial)"
proof -
  have h: "\<forall>i<AMOSTRAS. tensao (adc_silencio i) = offset_dc inicial"
    by (simp add: tensao_def inicial_def adc_silencio_def)
  with C4_piso_de_30 [of adc_silencio inicial] C4_piso_de_30 [of adc_pulso inicial]
  show ?thesis
    by (simp add: tensao_def inicial_def adc_silencio_def)
qed

text \<open>
  Claim C5. The threshold \<open>limite_atual_db\<close> starts at 100 and stays within \<open>[30, 120]\<close>
  along every run of the main loop. A call of \<open>verificar_botoes\<close> that gets past the
  debounce test adds exactly 1, capped at 120, when only button A is pressed; subtracts
  exactly 1, floored at 30, when only button B is pressed; does both in that order when
  both are pressed; and a call leaves the threshold alone otherwise.
\<close>

theorem C5_limite_na_faixa:
  "limite_atual_db inicial = 100
   \<and> (\<exists>s'. executar es inicial = Some s'
         \<and> 30 \<le> limite_atual_db s' \<and> limite_atual_db s' \<le> 120)
   \<and> (30 \<le> limite_atual_db s \<and> limite_atual_db s \<le> 120 \<longrightarrow>
        30 \<le> limite_atual_db (verificar_botoes t1 t2 a b s)
        \<and> limite_atual_db (verificar_botoes t1 t2 a b s) \<le> 120)
   \<and> (aceita t1 s \<longrightarrow>
        limite_atual_db (verificar_botoes t1 t2 a b s) =
          (if \<not> a \<and> b then min 120 (limite_atual_db s + 1)
           else if a \<and> \<not> b then max 30 (limite_atual_db s - 1)
           else if \<not> a \<and> \<not> b then max 30 (min 120 (limite_atual_db s + 1) - 1)
           else limite_atual_db s))
   \<and> (\<not> aceita t1 s \<longrightarrow>
        limite_atual_db (verificar_botoes t1 t2 a b s) = limite_atual_db s)"
proof -
  from executar_invariante [OF invariante_inicial, of es] obtain s' where
    "executar es inicial = Some s'" "invariante s'"
    by blast
  then have run: "\<exists>s'. executar es inicial = Some s'
      \<and> 30 \<le> limite_atual_db s' \<and> limite_atual_db s' \<le> 120"
    by (auto simp: invariante_def limite_ok_def)
  have range: "30 \<le> limite_atual_db (verificar_botoes t1 t2 a b s)
      \<and> limite_atual_db (verificar_botoes t1 t2 a b s) \<le> 120"
    if "30 \<le> limite_atual_db s \<and> limite_atual_db s \<le> 120"
    using that by (auto simp: verificar_botoes_def Let_def)
  have ini: "limite_atual_db inicial = 100"
    by (simp add: inicial_def LIMITE_DB_def)
  show ?thesis
    using run range ini verificar_botoes_limite [of t1 s t2 a b]
      verificar_botoes_gated [of t1 s t2 a b]
    by simp
qed

theorem C5_limite_na_faixa_witness:
  "aceita 500000 inicial
   \<and> limite_atual_db (verificar_botoes 500000 500001 False True inicial) = 101
   \<and> limite_atual_db (verificar_botoes 500000 500001 True False inicial) = 99
   \<and> limite_atual_db (verificar_botoes 500000 500001 False False inicial) = 100
   \<and> \<not> aceita 100000 inicial
   \<and> limite_atual_db (verificar_botoes 100000 100001 False True inicial) = 100
   \<and> (\<exists>s'. executar [entrada_botao_a] inicial = Some s'
         \<and> 30 \<le> limite_atual_db s' \<and> limite_atual_db s' \<le> 120)"
  using C5_limite_na_faixa [of "[entrada_botao_a]" inicial 500000 500001 False True]
    C5_limite_na_faixa [of "[]" inicial 500000 500001 True False]
    C5_limite_na_faixa [of "[]" inicial 500000 500001 False False]
    C5_limite_na_faixa [of "[]" inicial 100000 100001 False True]
  by (simp add: aceita_def debounce_delay_def inicial_def LIMITE_DB_def)

text \<open>
  Claim C6. One timestamp, \<open>last_press\<close>, gates both buttons with a window of 200 ms
  (200000 us). A call that gets past the test, whichever button is pressed, stores the
  current time in it. A call whose test comes less than 200 ms after the stored time
  returns the state as it was, so adjusts nothing. Of two successive calls whose tests are
  less than 200 ms apart at most one acts: either the first returns the state as it was or
  the second does; and together they move a threshold that is in range by at most 1.
\<close>

theorem C6_janela_compartilhada:
  "(aceita t1 s \<longrightarrow> last_press (verificar_botoes t1 t2 a b s) = t2)
   \<and> (d < 200000 \<and> t1 = last_press s + of_nat d \<longrightarrow> verificar_botoes t1 t2 a b s = s)
   \<and> (d1 + d2 < 200000 \<longrightarrow>
        verificar_botoes t1 (t1 + of_nat d1) a b s = s
        \<or> verificar_botoes (t1 + of_nat d1 + of_nat d2) t3 a' b'
             (verificar_botoes t1 (t1 + of_nat d1) a b s)
           = verificar_botoes t1 (t1 + of_nat d1) a b s)
   \<and> (d1 + d2 < 200000 \<and> 30 \<le> limite_atual_db s \<and> limite_atual_db s \<le> 120 \<longrightarrow>
        \<bar>limite_atual_db
            (verificar_botoes (t1 + of_nat d1 + of_nat d2) t3 a' b'
               (verificar_botoes t1 (t1 + of_nat d1) a b s))
          - limite_atual_db s\<bar> \<le> 1)"
proof -
  let ?s1 = "verificar_botoes t1 (t1 + of_nat d1) a b s"
  let ?s2 = "verificar_botoes (t1 + of_nat d1 + of_nat d2) t3 a' b' ?s1"
  have one: "verificar_botoes t1 t2 a b s = s" if "d < 200000 \<and> t1 = last_press s + of_nat d"
  proof -
    from that have "\<not> aceita t1 s"
      using dentro_da_janela [of d s "last_press s"] by simp
    then show ?thesis
      by (rule verificar_botoes_gated)
  qed
  have two: "?s1 = s \<or> ?s2 = ?s1" if d: "d1 + d2 < 200000"
  proof (cases "aceita t1 s")
    case True
    then have "last_press ?s1 = t1 + of_nat d1"
      by (rule verificar_botoes_last_press)
    moreover from d have "d2 < 200000"
      by simp
    ultimately have "\<not> aceita (t1 + of_nat d1 + of_nat d2) ?s1"
      by (rule dentro_da_janela [rotated])
    then show ?thesis
      by (simp add: verificar_botoes_gated)
  next
    case False
    then show ?thesis
      by (simp add: verificar_botoes_gated)
  qed
  have three: "\<bar>limite_atual_db ?s2 - limite_atual_db s\<bar> \<le> 1"
    if h: "d1 + d2 < 200000 \<and> 30 \<le> limite_atual_db s \<and> limite_atual_db s \<le> 120"
  proof -
    from h two have "?s1 = s \<or> ?s2 = ?s1"
      by simp
    then show ?thesis
    proof
      assume e: "?s1 = s"
      have "\<bar>limite_atual_db (verificar_botoes (t1 + of_nat d1 + of_nat d2) t3 a' b' s)
          - limite_atual_db s\<bar> \<le> 1"
        using h by (simp add: verificar_botoes_um_passo)
      then show ?thesis
        by (simp only: e)
    next
      assume e: "?s2 = ?s1"
      have "\<bar>limite_atual_db ?s1 - limite_atual_db s\<bar> \<le> 1"
        using h by (simp add: verificar_botoes_um_passo)
      then show ?thesis
        by (simp only: e)
    qed
  qed
  show ?thesis
    using one two three verificar_botoes_last_press [of t1 s t2 a b] by blast
qed

theorem C6_janela_compartilhada_witness:
  "aceita 500000 inicial
   \<and> last_press (verificar_botoes 500000 500010 False True inicial) = 500010
   \<and> last_press (verificar_botoes 500000 500010 True False inicial) = 500010
   \<and> limite_atual_db (verificar_botoes 500000 500010 False True inicial) = 101
   \<and> verificar_botoes 530010 530020 False True
        (verificar_botoes 500000 500010 False True inicial)
      = verificar_botoes 500000 500010 False True inicial
   \<and> verificar_botoes 100000 100010 False True inicial = inicial
   \<and> limite_atual_db
        (verificar_botoes 530010 530020 False False
           (verificar_botoes 500000 500010 False False (inicial\<lparr> limite_atual_db := 120 \<rparr>)))
      = 119"
  using C6_janela_compartilhada [of 500000 inicial 500010 False True 0 10 30000 530020 False True]
    C6_janela_compartilhada [of 500000 inicial 500010 True False 0 0 0 0 True True]
    C6_janela_compartilhada [of 100000 inicial 100010 False True 100000 0 0 0 True True]
    C6_janela_compartilhada [of 500000 "inicial\<lparr> limite_atual_db := 120 \<rparr>" 500010 False False
      0 10 30000 530020 False False]
  by (simp add: aceita_def debounce_delay_def inicial_def LIMITE_DB_def verificar_botoes_def
      Let_def)

text \<open>
  Claim C7. The history is a ring of 128 entries. From any state whose buffer has its 128
  entries and whose index is inside it (the initial state is one), storing a sequence of
  128 + k values always succeeds, leaves 128 entries, and reading the positions
  \<open>(indice_historico + i) mod 128\<close> for \<open>i = 0, \<dots>, 127\<close> gives exactly the last 128 values
  stored, oldest first; the buffer holds these values and no others.
\<close>

theorem C7_anel_de_128:
  assumes "historico_ok s" and "TAMANHO_HISTORICO \<le> length xs"
  shows "\<exists>s'. historico_seq xs s = Some s'
           \<and> length (historico s') = TAMANHO_HISTORICO
           \<and> leitura_cronologica s' = drop (length xs - TAMANHO_HISTORICO) xs
           \<and> mset (historico s') = mset (drop (length xs - TAMANHO_HISTORICO) xs)"
proof -
  from historico_seq_ok [OF assms(1), of xs] obtain s' where
    s': "historico_seq xs s = Some s'" "historico_ok s'"
      "leitura_cronologica s' = drop (length xs) (leitura_cronologica s @ xs)"
    by blast
  have len: "length (leitura_cronologica s) = TAMANHO_HISTORICO"
    by (simp add: leitura_cronologica_def)
  have "drop (length xs) (leitura_cronologica s @ xs) = drop (length xs - TAMANHO_HISTORICO) xs"
    using assms(2) len by simp
  with s'(3) have l: "leitura_cronologica s' = drop (length xs - TAMANHO_HISTORICO) xs"
    by simp
  moreover have "length (historico s') = TAMANHO_HISTORICO"
    using s'(2) by (simp add: historico_ok_def)
  moreover have "mset (historico s') = mset (drop (length xs - TAMANHO_HISTORICO) xs)"
    using leitura_mset [OF s'(2)] l by simp
  ultimately show ?thesis
    using s'(1) by blast
qed

theorem C7_anel_de_128_witness:
  "historico_ok inicial \<and> TAMANHO_HISTORICO \<le> length (map real [0..<130])
   \<and> (\<exists>s'. historico_seq (map real [0..<130]) inicial = Some s'
         \<and> length (historico s') = TAMANHO_HISTORICO
         \<and> leitura_cronologica s' = map real [2..<130])"
proof -
  have h: "TAMANHO_HISTORICO \<le> length (map real [0..<130])"
    by (simp add: TAMANHO_HISTORICO_def)
  have "length (map real [0..<130]) - TAMANHO_HISTORICO = 2"
    by (simp add: TAMANHO_HISTORICO_def)
  then have d: "drop (length (map real [0..<130]) - TAMANHO_HISTORICO) (map real [0..<130])
      = map real [2..<130]"
    by (simp only: drop_map drop_upt add_0)
  show ?thesis
    using h historico_ok_inicial C7_anel_de_128 [OF historico_ok_inicial h]
    unfolding d by blast
qed

text \<open>
  Claim C8, as the code has it. Each cycle draws one screen, chosen in this order. In mode
  Statistics: the label and the alert counter, whatever the level and the alert condition.
  Otherwise, when the alert condition is true: the fixed three-line banner. Otherwise the
  monitoring screen: the level, the mode label and the threshold, and in mode Monitoring
  (the only other mode a run reaches; in mode \<open>ALERTA\<close> the three texts are all) the graph.
  Its scale is the binary32 quotient \<open>40 / max\<close> when the maximum of the history exceeds 40
  and 1 otherwise (1 for a maximum of 20, 0.5 for a maximum of 80), and point \<open>i\<close> is drawn
  in row \<open>40 - n\<close>, where \<open>n\<close> is the binary32 product of the level and the scale cut to an
  integer (towards zero); the claim subtracts the exact product itself.
\<close>

theorem C8_uma_tela_por_ciclo:
  "(modo_atual s = ESTATISTICAS \<longrightarrow>
      compor_tela db c s =
        [Draw_string 5 0 (Literal ''Modo Estatisticas''),
         Draw_string 5 8 (Fmt_alertas (contador_alertas s))])
   \<and> (modo_atual s \<noteq> ESTATISTICAS \<and> c \<longrightarrow>
        compor_tela db c s =
          [Draw_string 5 0 (Literal ''  ALERTA!  ''),
           Draw_string 5 8 (Literal ''Nivel maximo''),
           Draw_string 5 16 (Literal '' excedido!  '')])
   \<and> (modo_atual s = MONITORAMENTO \<and> \<not> c \<and> historico_ok s \<longrightarrow>
        compor_tela db c s =
          [Draw_string 5 0 (Fmt_db db),
           Draw_string 5 45 (Literal ''Monitoramento''),
           Draw_string 5 55 (Fmt_limite (limite_atual_db s))]
          @ map (\<lambda>i. Set_pixel i
                   (40 - int_de_float
                           (float32 (leitura_cronologica s ! i
                                     * escala_grafico (Max (set (historico s)))))))
              [0..<TAMANHO_HISTORICO]
          @ [Draw_line_h 15, Draw_line_h 43])
   \<and> (modo_atual s = ALERTA \<and> \<not> c \<longrightarrow>
        compor_tela db c s =
          [Draw_string 5 0 (Fmt_db db),
           Draw_string 5 45 (Literal ''Modo Alerta''),
           Draw_string 5 55 (Fmt_limite (limite_atual_db s))])
   \<and> escala_grafico m = (if m > 40 then float32 (40 / m) else 1)
   \<and> escala_grafico 20 = 1 \<and> escala_grafico 80 = 0.5
   \<and> (0 \<le> x \<longrightarrow> int_de_float x = \<lfloor>x\<rfloor>)
   \<and> (x < 0 \<longrightarrow> int_de_float x = \<lceil>x\<rceil>)
   \<and> (historico_ok s \<longrightarrow>
        (\<exists>out s'. ciclo e s = Some (out, s')
           \<and> tela out = compor_tela (nivel_db out) (alerta_cond out) s'))"
proof -
  have est: "compor_tela db c s =
        [Draw_string 5 0 (Literal ''Modo Estatisticas''),
         Draw_string 5 8 (Fmt_alertas (contador_alertas s))]"
    if "modo_atual s = ESTATISTICAS"
    using that by (simp add: compor_tela_def exibir_texto_def)
  have ale: "compor_tela db c s =
          [Draw_string 5 0 (Literal ''  ALERTA!  ''),
           Draw_string 5 8 (Literal ''Nivel maximo''),
           Draw_string 5 16 (Literal '' excedido!  '')]"
    if "modo_atual s \<noteq> ESTATISTICAS \<and> c"
    using that by (simp add: compor_tela_def exibir_texto_def)
  have mon: "compor_tela db c s =
          [Draw_string 5 0 (Fmt_db db),
           Draw_string 5 45 (Literal ''Monitoramento''),
           Draw_string 5 55 (Fmt_limite (limite_atual_db s))]
          @ map (\<lambda>i. Set_pixel i
                   (40 - int_de_float
                           (float32 (leitura_cronologica s ! i
                                     * escala_grafico (Max (set (historico s)))))))
              [0..<TAMANHO_HISTORICO]
          @ [Draw_line_h 15, Draw_line_h 43]"
    if h: "modo_atual s = MONITORAMENTO \<and> \<not> c \<and> historico_ok s"
  proof -
    from h have len: "length (historico s) = TAMANHO_HISTORICO"
      by (simp add: historico_ok_def)
    have mx: "obter_valor_maximo (historico s) TAMANHO_HISTORICO = Max (set (historico s))"
      using len by (rule obter_valor_maximo_Max) (simp add: TAMANHO_HISTORICO_def)
    have px: "map (\<lambda>i. Set_pixel i (ponto_y s k i)) [0..<TAMANHO_HISTORICO]
        = map (\<lambda>i. Set_pixel i (40 - int_de_float (float32 (leitura_cronologica s ! i * k))))
            [0..<TAMANHO_HISTORICO]" for k
      by (rule map_cong) (simp_all add: ponto_y_def leitura_cronologica_def)
    show ?thesis
      using h by (simp add: compor_tela_def atualizar_display_def Let_def mx px texto_modo_def)
  qed
  have mal: "compor_tela db c s =
          [Draw_string 5 0 (Fmt_db db),
           Draw_string 5 45 (Literal ''Modo Alerta''),
           Draw_string 5 55 (Fmt_limite (limite_atual_db s))]"
    if "modo_atual s = ALERTA \<and> \<not> c"
    using that by (simp add: compor_tela_def atualizar_display_def texto_modo_def)
  have cyc: "\<exists>out s'. ciclo e s = Some (out, s')
      \<and> tela out = compor_tela (nivel_db out) (alerta_cond out) s'"
    if "historico_ok s"
    using ciclo_efeito [OF that, of e] by blast
  have esc: "escala_grafico m = (if m > 40 then float32 (40 / m) else 1)"
    "escala_grafico 20 = 1" "escala_grafico 80 = 0.5"
    using float32_meio by (simp_all add: escala_grafico_def)
  have tr: "int_de_float x = \<lfloor>x\<rfloor>" if "0 \<le> x"
    using that by (simp add: int_de_float_def)
  have tr': "int_de_float x = \<lceil>x\<rceil>" if "x < 0"
    using that by (simp add: int_de_float_def)
  show ?thesis
    using est ale mon mal cyc esc tr tr' by blast
qed

text \<open>
  The graph after the single level 66.5: the scale is \<open>5045779 / 8388608\<close>, just below
  \<open>40 / 66.5\<close>; the product with 66.5 rounds to \<open>10485759 / 262144\<close>, just below 40; so the
  newest point is in row 1 and the 127 older points, of level 0, are in row 40.
\<close>

lemma leitura_nivel_alto:
  "i < TAMANHO_HISTORICO \<Longrightarrow>
     leitura_cronologica sistema_nivel_alto ! i = (if i = 127 then 66.5 else 0)"
proof -
  assume "i < TAMANHO_HISTORICO"
  then have i: "i < 128"
    by (simp add: TAMANHO_HISTORICO_def)
  have "(1 + i) mod 128 = (if i = 127 then 0 else Suc i)"
    using i by (simp add: mod_if)
  then show ?thesis
    using i by (auto simp: leitura_cronologica_def sistema_nivel_alto_def TAMANHO_HISTORICO_def)
qed

lemma maximo_nivel_alto: "Max (set (historico sistema_nivel_alto)) = 66.5"
  by (simp add: sistema_nivel_alto_def)

lemma escala_nivel_alto: "escala_grafico 66.5 = 5045779 / 8388608"
  using float32_escala_66_5 by (simp add: escala_grafico_def)

lemma linha_nivel_alto: "40 - int_de_float (float32 (66.5 * (5045779 / 8388608))) = 1"
  by (simp only: float32_produto_66_5) (simp add: int_de_float_def)

lemma linha_zero: "40 - int_de_float (float32 (0 * k)) = 40"
  by (simp add: float32_def int_de_float_def)

theorem C8_uma_tela_por_ciclo_witness:
  "compor_tela 105 True (inicial\<lparr> modo_atual := ESTATISTICAS \<rparr>) =
      [Draw_string 5 0 (Literal ''Modo Estatisticas''), Draw_string 5 8 (Fmt_alertas 0)]
   \<and> compor_tela 105 True inicial =
      [Draw_string 5 0 (Literal ''  ALERTA!  ''),
       Draw_string 5 8 (Literal ''Nivel maximo''),
       Draw_string 5 16 (Literal '' excedido!  '')]
   \<and> historico_ok sistema_nivel_alto
   \<and> compor_tela 66.5 False sistema_nivel_alto =
      [Draw_string 5 0 (Fmt_db 66.5),
       Draw_string 5 45 (Literal ''Monitoramento''),
       Draw_string 5 55 (Fmt_limite 100)]
      @ map (\<lambda>i. Set_pixel i (if i = 127 then 1 else 40)) [0..<TAMANHO_HISTORICO]
      @ [Draw_line_h 15, Draw_line_h 43]
   \<and> compor_tela 30 False (inicial\<lparr> modo_atual := ALERTA \<rparr>) =
      [Draw_string 5 0 (Fmt_db 30),
       Draw_string 5 45 (Literal ''Modo Alerta''),
       Draw_string 5 55 (Fmt_limite 100)]
   \<and> int_de_float 30.5 = 30
   \<and> int_de_float (- 30.5) = - 30"
proof -
  have ok: "historico_ok sistema_nivel_alto"
    by (simp add: historico_ok_def sistema_nivel_alto_def TAMANHO_HISTORICO_def)
  have px: "map (\<lambda>i. Set_pixel i (40 - int_de_float (float32
        (leitura_cronologica sistema_nivel_alto ! i
         * escala_grafico (Max (set (historico sistema_nivel_alto)))))))
        [0..<TAMANHO_HISTORICO]
      = map (\<lambda>i. Set_pixel i (if i = 127 then 1 else 40)) [0..<TAMANHO_HISTORICO]"
  proof (rule map_cong)
    fix i assume "i \<in> set [0..<TAMANHO_HISTORICO]"
    then have i: "i < TAMANHO_HISTORICO"
      by simp
    show "Set_pixel i (40 - int_de_float (float32
        (leitura_cronologica sistema_nivel_alto ! i
         * escala_grafico (Max (set (historico sistema_nivel_alto))))))
      = Set_pixel i (if i = 127 then 1 else 40)"
      using linha_nivel_alto linha_zero [of "5045779 / 8388608"]
      by (simp only: leitura_nivel_alto [OF i] maximo_nivel_alto escala_nivel_alto
          split: if_split) simp
  qed simp
  have f: "modo_atual inicial = MONITORAMENTO" "limite_atual_db inicial = 100"
    "contador_alertas inicial = 0"
    "modo_atual sistema_nivel_alto = MONITORAMENTO" "limite_atual_db sistema_nivel_alto = 100"
    by (simp_all add: inicial_def sistema_nivel_alto_def LIMITE_DB_def)
  have a: "compor_tela 105 True (inicial\<lparr> modo_atual := ESTATISTICAS \<rparr>) =
      [Draw_string 5 0 (Literal ''Modo Estatisticas''), Draw_string 5 8 (Fmt_alertas 0)]"
    using C8_uma_tela_por_ciclo [of "inicial\<lparr> modo_atual := ESTATISTICAS \<rparr>" 105 True 0 "30.5"]
    by (simp add: f)
  have b: "compor_tela 105 True inicial =
      [Draw_string 5 0 (Literal ''  ALERTA!  ''),
       Draw_string 5 8 (Literal ''Nivel maximo''),
       Draw_string 5 16 (Literal '' excedido!  '')]"
    using C8_uma_tela_por_ciclo [of inicial 105 True 0 0] by (simp add: f)
  have c: "compor_tela 66.5 False sistema_nivel_alto =
      [Draw_string 5 0 (Fmt_db 66.5),
       Draw_string 5 45 (Literal ''Monitoramento''),
       Draw_string 5 55 (Fmt_limite 100)]
      @ map (\<lambda>i. Set_pixel i (if i = 127 then 1 else 40)) [0..<TAMANHO_HISTORICO]
      @ [Draw_line_h 15, Draw_line_h 43]"
    using C8_uma_tela_por_ciclo [of sistema_nivel_alto "66.5" False 0 0] ok
    by (simp add: f px)
  have d: "compor_tela 30 False (inicial\<lparr> modo_atual := ALERTA \<rparr>) =
      [Draw_string 5 0 (Fmt_db 30),
       Draw_string 5 45 (Literal ''Modo Alerta''),
       Draw_string 5 55 (Fmt_limite 100)]"
    using C8_uma_tela_por_ciclo [of "inicial\<lparr> modo_atual := ALERTA \<rparr>" 30 False 0 0]
    by (simp add: f)
  have t: "int_de_float 30.5 = 30" "int_de_float (- 30.5) = - 30"
    using C8_uma_tela_por_ciclo [of inicial 0 False 0 "30.5"]
      C8_uma_tela_por_ciclo [of inicial 0 False 0 "- 30.5"]
    by simp_all
  show ?thesis
    using a b c d t ok by simp
qed

text \<open>
  The row of a point is not \<open>40 - level * scale\<close>. With the single level 30.5 in the buffer
  the scale is 1 and the point is drawn in row 10, while \<open>40 - 30.5 * 1\<close> is 9.5. With the
  single level 66.5 the point is drawn in row 1, while \<open>40 - 66.5 * (40 / 66.5)\<close> is 0.
\<close>

lemma sistema_um_nivel_alcancado: "atualizar_historico 30.5 inicial = Some sistema_um_nivel"
proof -
  have "replicate TAMANHO_HISTORICO (0::real) = 0 # replicate 127 0"
    using replicate_Suc [of 127 "0::real"] by (simp add: TAMANHO_HISTORICO_def)
  then show ?thesis
    by (simp add: atualizar_historico_def sistema_um_nivel_def inicial_def)
      (simp add: TAMANHO_HISTORICO_def)
qed

lemma sistema_nivel_alto_alcancado: "atualizar_historico 66.5 inicial = Some sistema_nivel_alto"
proof -
  have "replicate TAMANHO_HISTORICO (0::real) = 0 # replicate 127 0"
    using replicate_Suc [of 127 "0::real"] by (simp add: TAMANHO_HISTORICO_def)
  then show ?thesis
    by (simp add: atualizar_historico_def sistema_nivel_alto_def inicial_def)
      (simp add: TAMANHO_HISTORICO_def)
qed

lemma maximo_um_nivel:
  "obter_valor_maximo (historico sistema_um_nivel) TAMANHO_HISTORICO = 30.5"
proof -
  have "obter_valor_maximo (historico sistema_um_nivel) TAMANHO_HISTORICO
      = Max (set (historico sistema_um_nivel))"
    by (rule obter_valor_maximo_Max) (simp_all add: sistema_um_nivel_def TAMANHO_HISTORICO_def)
  also have "\<dots> = 30.5"
    by (simp add: sistema_um_nivel_def)
  finally show ?thesis .
qed

lemma maximo_do_nivel_alto:
  "obter_valor_maximo (historico sistema_nivel_alto) TAMANHO_HISTORICO = 66.5"
proof -
  have "obter_valor_maximo (historico sistema_nivel_alto) TAMANHO_HISTORICO
      = Max (set (historico sistema_nivel_alto))"
    by (rule obter_valor_maximo_Max) (simp_all add: sistema_nivel_alto_def TAMANHO_HISTORICO_def)
  then show ?thesis
    by (simp only: maximo_nivel_alto)
qed

theorem C8_linha_truncada_counterexample:
  "leitura_cronologica sistema_um_nivel ! 127 = 30.5
   \<and> escala_grafico (obter_valor_maximo (historico sistema_um_nivel) TAMANHO_HISTORICO) = 1
   \<and> ponto_y sistema_um_nivel
        (escala_grafico (obter_valor_maximo (historico sistema_um_nivel) TAMANHO_HISTORICO)) 127
      = 10
   \<and> real_of_int 10 \<noteq> 40 - 30.5 * 1
   \<and> Set_pixel 127 10 \<in> set (compor_tela 30.5 False sistema_um_nivel)
   \<and> leitura_cronologica sistema_nivel_alto ! 127 = 66.5
   \<and> obter_valor_maximo (historico sistema_nivel_alto) TAMANHO_HISTORICO = 66.5
   \<and> ponto_y sistema_nivel_alto
        (escala_grafico (obter_valor_maximo (historico sistema_nivel_alto) TAMANHO_HISTORICO)) 127
      = 1
   \<and> real_of_int 1 \<noteq> 40 - 66.5 * (40 / 66.5)
   \<and> Set_pixel 127 1 \<in> set (compor_tela 66.5 False sistema_nivel_alto)"
proof -
  have l: "leitura_cronologica sistema_um_nivel ! 127 = 30.5"
    by (simp add: leitura_cronologica_def sistema_um_nivel_def TAMANHO_HISTORICO_def)
  have e: "escala_grafico (obter_valor_maximo (historico sistema_um_nivel) TAMANHO_HISTORICO) = 1"
    by (simp add: maximo_um_nivel escala_grafico_def)
  have "historico sistema_um_nivel ! ((unat (indice_historico sistema_um_nivel) + 127)
      mod TAMANHO_HISTORICO) * 1 = 30.5"
    by (simp add: sistema_um_nivel_def TAMANHO_HISTORICO_def)
  then have y: "ponto_y sistema_um_nivel 1 127 = 10"
    unfolding ponto_y_def by (simp only: float32_30_5) (simp add: int_de_float_def)
  have m: "modo_atual sistema_um_nivel = MONITORAMENTO"
    by (simp add: sistema_um_nivel_def inicial_def)
  have "Set_pixel 127 (ponto_y sistema_um_nivel 1 127)
      \<in> (\<lambda>i. Set_pixel i (ponto_y sistema_um_nivel 1 i)) ` set [0..<TAMANHO_HISTORICO]"
    by (rule imageI) (simp add: TAMANHO_HISTORICO_def)
  then have p: "Set_pixel 127 10 \<in> set (compor_tela 30.5 False sistema_um_nivel)"
    unfolding y by (simp add: compor_tela_def atualizar_display_def Let_def m e)
  have l2: "leitura_cronologica sistema_nivel_alto ! 127 = 66.5"
    by (simp add: leitura_nivel_alto TAMANHO_HISTORICO_def)
  have e2: "escala_grafico (obter_valor_maximo (historico sistema_nivel_alto) TAMANHO_HISTORICO)
      = 5045779 / 8388608"
    by (simp only: maximo_do_nivel_alto escala_nivel_alto)
  have "historico sistema_nivel_alto ! ((unat (indice_historico sistema_nivel_alto) + 127)
      mod TAMANHO_HISTORICO) * (5045779 / 8388608) = 66.5 * (5045779 / 8388608)"
    by (simp add: sistema_nivel_alto_def TAMANHO_HISTORICO_def)
  then have y2: "ponto_y sistema_nivel_alto (5045779 / 8388608) 127 = 1"
    unfolding ponto_y_def by (simp only: linha_nivel_alto)
  have m2: "modo_atual sistema_nivel_alto = MONITORAMENTO"
    by (simp add: sistema_nivel_alto_def inicial_def)
  have "Set_pixel 127 (ponto_y sistema_nivel_alto (5045779 / 8388608) 127)
      \<in> (\<lambda>i. Set_pixel i (ponto_y sistema_nivel_alto (5045779 / 8388608) i))
          ` set [0..<TAMANHO_HISTORICO]"
    by (rule imageI) (simp add: TAMANHO_HISTORICO_def)
  then have p2: "Set_pixel 127 1 \<in> set (compor_tela 66.5 False sistema_nivel_alto)"
    unfolding y2 by (simp add: compor_tela_def atualizar_display_def Let_def m2 e2)
  have n: "real_of_int 10 \<noteq> 40 - 30.5 * 1" "real_of_int 1 \<noteq> 40 - 66.5 * (40 / 66.5)"
    by simp_all
  have y': "ponto_y sistema_um_nivel
      (escala_grafico (obter_valor_maximo (historico sistema_um_nivel) TAMANHO_HISTORICO)) 127
      = 10"
    by (simp only: e y)
  have y2': "ponto_y sistema_nivel_alto
      (escala_grafico (obter_valor_maximo (historico sistema_nivel_alto) TAMANHO_HISTORICO)) 127
      = 1"
    by (simp only: e2 y2)
  show ?thesis
    using l e y' n(1) p l2 maximo_do_nivel_alto y2' n(2) p2 by blast
qed

text \<open>
  Claim C9. With \<open>p\<close> the joystick reading over 4096, \<open>verificar_joystick\<close> sets the mode to
  Monitoring when \<open>p < 0.3\<close>, to Statistics when \<open>p > 0.7\<close>, and leaves it as it is for
  \<open>0.3 \<le> p \<le> 0.7\<close>. No run of the main loop from the initial state reaches the mode
  \<open>ALERTA\<close>.
\<close>

theorem C9_seletor_de_modo:
  "modo_atual (verificar_joystick r s) =
     (if real (unat r) / 4096 < 0.3 then MONITORAMENTO
      else if real (unat r) / 4096 > 0.7 then ESTATISTICAS
      else modo_atual s)
   \<and> modo_atual inicial = MONITORAMENTO
   \<and> (\<exists>s'. executar es inicial = Some s' \<and> modo_atual s' \<noteq> ALERTA)"
proof -
  from executar_invariante [OF invariante_inicial, of es] obtain s' where
    "executar es inicial = Some s'" "invariante s'"
    by blast
  then have "\<exists>s'. executar es inicial = Some s' \<and> modo_atual s' \<noteq> ALERTA"
    by (auto simp: invariante_def)
  moreover have "modo_atual inicial = MONITORAMENTO"
    by (simp add: inicial_def)
  ultimately show ?thesis
    by (simp add: verificar_joystick_modo)
qed

theorem C9_seletor_de_modo_witness:
  "modo_atual (verificar_joystick 4095 inicial) = ESTATISTICAS
   \<and> modo_atual (verificar_joystick 2048 (verificar_joystick 4095 inicial)) = ESTATISTICAS
   \<and> modo_atual (verificar_joystick 100 (verificar_joystick 4095 inicial)) = MONITORAMENTO
   \<and> (\<exists>s'. executar [entrada_estatisticas, entrada_ruido] inicial = Some s'
         \<and> modo_atual s' \<noteq> ALERTA)"
  using C9_seletor_de_modo [of 4095 inicial "[entrada_estatisticas, entrada_ruido]"]
    C9_seletor_de_modo [of 2048 "verificar_joystick 4095 inicial" "[]"]
    C9_seletor_de_modo [of 100 "verificar_joystick 4095 inicial" "[]"]
  by simp

text \<open>
  Claim C10. A call of \<open>verificar_botoes\<close> that gets past the 200 ms test stores the current
  time in \<open>last_press\<close> even when no button is pressed (both inputs read high). So after any
  call that got past the test no call within the next 200 ms gets past it, and a press
  that comes less than 200 ms after such a call, also one in which nothing was pressed,
  changes nothing.
\<close>

theorem C10_marca_sem_botao:
  "(aceita t1 s \<longrightarrow>
      last_press (verificar_botoes t1 t2 True True s) = t2
      \<and> limite_atual_db (verificar_botoes t1 t2 True True s) = limite_atual_db s)
   \<and> (aceita t1 s \<and> d < 200000 \<longrightarrow>
        \<not> aceita (t2 + of_nat d) (verificar_botoes t1 t2 a b s))
   \<and> (aceita t1 s \<and> d < 200000 \<longrightarrow>
        verificar_botoes (t2 + of_nat d) t3 a' b' (verificar_botoes t1 t2 True True s)
          = verificar_botoes t1 t2 True True s
        \<and> limite_atual_db
            (verificar_botoes (t2 + of_nat d) t3 a' b' (verificar_botoes t1 t2 True True s))
          = limite_atual_db s)"
proof -
  have gate: "\<not> aceita (t2 + of_nat d) (verificar_botoes t1 t2 x y s)"
    if "aceita t1 s \<and> d < 200000" for x y
  proof -
    from that have "last_press (verificar_botoes t1 t2 x y s) = t2"
      by (simp add: verificar_botoes_last_press)
    with that show ?thesis
      using dentro_da_janela [of d "verificar_botoes t1 t2 x y s" t2] by simp
  qed
  have keep: "limite_atual_db (verificar_botoes t1 t2 True True s) = limite_atual_db s"
    by (simp add: verificar_botoes_def Let_def)
  have swallow: "verificar_botoes (t2 + of_nat d) t3 a' b' (verificar_botoes t1 t2 True True s)
      = verificar_botoes t1 t2 True True s"
    if "aceita t1 s \<and> d < 200000"
    using gate [OF that, of True True] by (rule verificar_botoes_gated)
  show ?thesis
    using gate [of a b] keep swallow verificar_botoes_last_press [of t1 s t2 True True]
    by simp
qed

theorem C10_marca_sem_botao_witness:
  "aceita 500000 inicial
   \<and> last_press (verificar_botoes 500000 500010 True True inicial) = 500010
   \<and> \<not> aceita 530010 (verificar_botoes 500000 500010 True True inicial)
   \<and> limite_atual_db
       (verificar_botoes 530010 530020 False True
          (verificar_botoes 500000 500010 True True inicial)) = 100"
  using C10_marca_sem_botao [of 500000 inicial 500010 30000 True True 530020 False True]
  by (simp add: aceita_def debounce_delay_def inicial_def LIMITE_DB_def verificar_botoes_def
      Let_def)

end
